theory Spec2Isabelle
  imports Complex_Main "HOL-Library.Sublist" "HOL-Library.Char_ord" "HOL-Library.List_Lexorder"
begin

section \<open>Python values shared by the modules\<close>

text \<open>
  Python floats are idealised as \<^typ>\<open>real\<close>; strings are character lists and the
  test \<^verbatim>\<open>w in s\<close> on strings is \<^term>\<open>sublist w s\<close>. Exceptions are values of
  \<open>pyerror\<close>; a function that may raise returns \<open>pyerror + 'a\<close>.
\<close>

datatype pyerror =
    AttributeError string
  | TypeError string
  | KeyError string
  | ValueError string
  | ValidationError string
  | FileNotFoundError string
  | ZeroDivisionError

definition lower_char :: "char \<Rightarrow> char" where
  "lower_char c =
     (let n = (of_char c :: nat) in if 65 \<le> n \<and> n \<le> 90 then char_of (n + 32) else c)"

definition upper_char :: "char \<Rightarrow> char" where
  "upper_char c =
     (let n = (of_char c :: nat) in if 97 \<le> n \<and> n \<le> 122 then char_of (n - 32) else c)"

definition lower :: "string \<Rightarrow> string" where
  "lower s = map lower_char s"

definition upper :: "string \<Rightarrow> string" where
  "upper s = map upper_char s"

text \<open>
  The characters \<^verbatim>\<open>str.strip()\<close> removes, among the 256 characters modelled: the ASCII
  white space, the separators 0x1C to 0x1F, NEL (0x85) and the no-break space (0xA0).
\<close>

definition is_space :: "char \<Rightarrow> bool" where
  "is_space c = (c \<in> set [CHR '' '', CHR 0x09, CHR 0x0A, CHR 0x0B, CHR 0x0C, CHR 0x0D,
                            CHR 0x1C, CHR 0x1D, CHR 0x1E, CHR 0x1F, CHR 0x85, CHR 0xA0])"

definition strip :: "string \<Rightarrow> string" where
  "strip s = rev (dropWhile is_space (rev (dropWhile is_space s)))"

definition pound :: string where
  "pound = [CHR 0xA3]"

fun digit_char :: "nat \<Rightarrow> char" where
  "digit_char n = char_of (48 + n)"

fun string_of_nat :: "nat \<Rightarrow> string" where
  "string_of_nat n =
     (if n < 10 then [digit_char n] else string_of_nat (n div 10) @ [digit_char (n mod 10)])"

declare string_of_nat.simps [simp del]

section \<open>The CVR ledger updater (backend/utils/update\_cvr.py)\<close>

subsection \<open>Workbooks, sheets and the rule configuration\<close>

text \<open>
  A cell's \<^verbatim>\<open>.value\<close> is \<^verbatim>\<open>None\<close>, a number or a string. A worksheet maps a cell
  coordinate to the value stored there; a workbook is the ordered list of its titled sheets.
  Coordinates are opaque strings: openpyxl's own coordinate parsing is not modelled.
\<close>

datatype cell_value = CNone | CNum real | CStr string

type_synonym worksheet = "string \<Rightarrow> cell_value"

type_synonym workbook = "(string \<times> worksheet) list"

text \<open>
  \<^verbatim>\<open>self.update_rules\<close>: a section that is missing from the JSON is the empty dictionary
  (\<^verbatim>\<open>.get('cell_mappings', {})\<close>), a condition that is missing is \<^term>\<open>None\<close>.
\<close>

record update_rules =
  cell_mappings :: "string \<rightharpoonup> string"
  cost_categories :: "string \<rightharpoonup> string list"
  only_positive_values :: "bool option"
  preserve_formulas :: "bool option"

definition default_rules :: update_rules where
  "default_rules = \<lparr>
     cell_mappings = map_of
       [(''total_contract_value'', ''C3''), (''total_invoiced'', ''C4''),
        (''total_costs'', ''C5''), (''material_costs'', ''C6''),
        (''labour_costs'', ''C7''), (''plant_costs'', ''C8''),
        (''subcontract_costs'', ''C9''), (''projected_margin'', ''C10''),
        (''variations_approved'', ''C11''), (''variations_pending'', ''C12'')],
     cost_categories = map_of
       [(''material'', [''Material'', ''Materials'', ''MATERIALS'', ''MAT'']),
        (''labour'', [''Labour'', ''Labor'', ''LABOUR'', ''LAB'', ''Wages'']),
        (''plant'', [''Plant'', ''PLANT'', ''Machinery'', ''Equipment'', ''EQUIP'']),
        (''subcontract'', [''Subcontract'', ''SUB'', ''Subcontractor'', ''SC''])],
     only_positive_values = Some True,
     preserve_formulas = Some True \<rparr>"

text \<open>\<^verbatim>\<open>conditions.get(key, True)\<close>\<close>

definition get_default_true :: "bool option \<Rightarrow> bool" where
  "get_default_true c = (case c of None \<Rightarrow> True | Some b \<Rightarrow> b)"

text \<open>\<^verbatim>\<open>isinstance(current_value, str) and current_value.startswith('=')\<close>\<close>

definition is_formula :: "cell_value \<Rightarrow> bool" where
  "is_formula v = (case v of CStr s \<Rightarrow> prefix ''='' s | _ \<Rightarrow> False)"

definition update_cell :: "update_rules \<Rightarrow> worksheet \<Rightarrow> string \<Rightarrow> real \<Rightarrow> worksheet \<times> bool" where
  "update_cell rules sheet cell_key v =
     (case cell_mappings rules cell_key of
        None \<Rightarrow> (sheet, False)
      | Some cell_address \<Rightarrow>
          if cell_address = [] then (sheet, False)
          else if get_default_true (only_positive_values rules) \<and> v < 0 then (sheet, False)
          else if get_default_true (preserve_formulas rules) \<and> is_formula (sheet cell_address)
            then (sheet, False)
          else (sheet(cell_address := CNum v), True))"

definition calculate_category_cost :: "update_rules \<Rightarrow> (string \<times> real) list \<Rightarrow> string \<Rightarrow> real" where
  "calculate_category_cost rules expense_breakdown category =
     (let category_keywords = (case cost_categories rules category of None \<Rightarrow> [] | Some ks \<Rightarrow> ks)
      in sum_list (map snd (filter
           (\<lambda>(expense_type, amount).
               list_ex (\<lambda>keyword. sublist (lower keyword) (lower expense_type)) category_keywords)
           expense_breakdown)))"

subsection \<open>Job sheets\<close>

definition default_cvr_items :: "(string \<times> string) list" where
  "default_cvr_items =
     [(''Contract Value'', ''Original contract value''),
      (''Total Invoiced'', ''Total amount invoiced''),
      (''Total Costs'', ''Total costs incurred''),
      (''Material Costs'', ''Material and supplies''),
      (''Labour Costs'', ''Labour and wages''),
      (''Plant Costs'', ''Plant and equipment''),
      (''Subcontract Costs'', ''Subcontractor costs''),
      (''Projected Margin'', ''Projected profit margin''),
      (''Variations Approved'', ''Approved variations''),
      (''Variations Pending'', ''Pending variations'')]"

fun setup_items :: "worksheet \<Rightarrow> nat \<Rightarrow> (string \<times> string) list \<Rightarrow> worksheet" where
  "setup_items sheet i [] = sheet"
| "setup_items sheet i ((item, desc) # rest) =
     setup_items
       (sheet(''A'' @ string_of_nat i := CStr item,
              ''B'' @ string_of_nat i := CStr desc,
              ''C'' @ string_of_nat i := CNum 0))
       (Suc i) rest"

definition setup_default_cvr_structure :: "worksheet \<Rightarrow> worksheet" where
  "setup_default_cvr_structure sheet =
     setup_items
       (sheet(''A1'' := CStr ''Cost Value Reconciliation'',
              ''A2'' := CStr ''Item'',
              ''B2'' := CStr ''Description'',
              ''C2'' := CStr (''Amount ('' @ pound @ '')'')))
       3 default_cvr_items"

definition job_sheet_name :: "string \<Rightarrow> string" where
  "job_sheet_name job_code = ''Job_'' @ job_code"

text \<open>
  Giving a sheet its title. openpyxl's title setter, which both
  \<^verbatim>\<open>new_sheet.title = sheet_name\<close> and \<^verbatim>\<open>wb.create_sheet(sheet_name)\<close> go through, raises
  ValueError when the title contains one of the characters \<^verbatim>\<open>\ * ? : / [ ]\<close>, naming the
  first of them. (The title \<^verbatim>\<open>Job_...\<close> is never empty. Titles are compared exactly, as
  \<^verbatim>\<open>sheet_name in wb.sheetnames\<close> does; openpyxl's numbering of a new title that differs
  from an existing one only in letter case is outside the model.)
\<close>

definition invalid_title_chars :: string where
  "invalid_title_chars = [CHR 0x5C, CHR ''*'', CHR ''?'', CHR '':'', CHR ''/'', CHR ''['', CHR '']'']"

definition set_title :: "string \<Rightarrow> pyerror + string" where
  "set_title title =
     (case filter (\<lambda>c. c \<in> set invalid_title_chars) title of
        [] \<Rightarrow> Inr title
      | c # _ \<Rightarrow> Inl (ValueError (''Invalid character '' @ [c] @ '' found in sheet title'')))"

text \<open>
  \<^verbatim>\<open>_get_or_create_job_sheet\<close> returns the workbook (with the new sheet appended when the
  job had none) and the sheet the caller goes on to mutate, or raises when the new sheet
  cannot be given its title. A sheet that is already there is returned as it is.
\<close>

definition get_or_create_job_sheet :: "workbook \<Rightarrow> string \<Rightarrow> pyerror + workbook \<times> worksheet" where
  "get_or_create_job_sheet wb job_code =
     (let sheet_name = job_sheet_name job_code
      in case map_of wb sheet_name of
           Some sheet \<Rightarrow> Inr (wb, sheet)
         | None \<Rightarrow>
             (case map_of wb ''Template'' of
                Some template_sheet \<Rightarrow>
                  (case set_title sheet_name of
                     Inl e \<Rightarrow> Inl e
                   | Inr title \<Rightarrow> Inr (wb @ [(title, template_sheet)], template_sheet))
              | None \<Rightarrow>
                  (case set_title sheet_name of
                     Inl e \<Rightarrow> Inl e
                   | Inr title \<Rightarrow>
                       (let new_sheet = setup_default_cvr_structure (\<lambda>_. CNone)
                        in Inr (wb @ [(title, new_sheet)], new_sheet)))))"

text \<open>The in-place mutations of the sheet object, written back under its title.\<close>

definition store_sheet :: "string \<Rightarrow> worksheet \<Rightarrow> workbook \<Rightarrow> workbook" where
  "store_sheet name sheet wb = map (\<lambda>(n, s). if n = name then (n, sheet) else (n, s)) wb"

subsection \<open>Updating a job sheet\<close>

datatype update_result =
    Failed string
  | Updated (updates: "string list") (result_job_code: string) (updated_at: string)

definition success :: "update_result \<Rightarrow> bool" where
  "success r = (case r of Updated _ _ _ \<Rightarrow> True | Failed _ \<Rightarrow> False)"

text \<open>
  The repeated step \<^verbatim>\<open>if self._update_cell(sheet, key, v): updates.append(f"{label}: ...")\<close>.
  \<open>fmt\<close> stands for Python's \<^verbatim>\<open>:,.2f\<close> formatting of the amount.
\<close>

definition apply_update ::
  "update_rules \<Rightarrow> (real \<Rightarrow> string) \<Rightarrow> worksheet \<times> string list \<Rightarrow> string \<Rightarrow> string \<Rightarrow> real
     \<Rightarrow> worksheet \<times> string list" where
  "apply_update rules fmt st cell_key label v =
     (case update_cell rules (fst st) cell_key v of
        (sheet', ok) \<Rightarrow>
          (sheet', if ok then snd st @ [label @ '': '' @ pound @ fmt v] else snd st))"

text \<open>\<^verbatim>\<open>str(e)\<close> for the exception caught by the callers.\<close>

definition str_of_error :: "pyerror \<Rightarrow> string" where
  "str_of_error e = (case e of
       AttributeError m \<Rightarrow> m | TypeError m \<Rightarrow> m | KeyError m \<Rightarrow> m | ValueError m \<Rightarrow> m
     | ValidationError m \<Rightarrow> m | FileNotFoundError m \<Rightarrow> m
     | ZeroDivisionError \<Rightarrow> ''float division by zero'')"

record pnl_job_data =
  total_expenses :: "real option"
  expense_breakdown :: "(string \<times> real) list option"

text \<open>
  \<open>stamp\<close> and \<open>isotime\<close> are the two readings of the clock (\<^verbatim>\<open>strftime\<close> and
  \<^verbatim>\<open>isoformat\<close>). The workbook returned is the file's content after the call: the
  file is saved only on the successful path.
\<close>

definition update_cvr_with_pnl ::
  "update_rules \<Rightarrow> (real \<Rightarrow> string) \<Rightarrow> string \<Rightarrow> string \<Rightarrow> workbook
     \<Rightarrow> (string \<rightharpoonup> pnl_job_data) \<Rightarrow> string \<Rightarrow> workbook \<times> update_result" where
  "update_cvr_with_pnl rules fmt stamp isotime wb pnl_data job_code =
     (case get_or_create_job_sheet wb job_code of
        Inl e \<Rightarrow> (wb, Failed (str_of_error e))
      | Inr (wb1, sheet) \<Rightarrow>
          (case pnl_data job_code of
             None \<Rightarrow> (wb, Failed (''Job '' @ job_code @ '' not found in P&L data''))
           | Some job_data \<Rightarrow>
               (let total_costs = (case total_expenses job_data of None \<Rightarrow> 0 | Some t \<Rightarrow> t);
                    st1 = apply_update rules fmt (sheet, []) ''total_costs'' ''Total costs'' total_costs;
                    breakdown = (case expense_breakdown job_data of None \<Rightarrow> [] | Some b \<Rightarrow> b);
                    st2 = apply_update rules fmt st1 ''material_costs'' ''Material costs''
                            (calculate_category_cost rules breakdown ''material'');
                    st3 = apply_update rules fmt st2 ''labour_costs'' ''Labour costs''
                            (calculate_category_cost rules breakdown ''labour'');
                    st4 = apply_update rules fmt st3 ''plant_costs'' ''Plant costs''
                            (calculate_category_cost rules breakdown ''plant'');
                    st5 = apply_update rules fmt st4 ''subcontract_costs'' ''Subcontract costs''
                            (calculate_category_cost rules breakdown ''subcontract'');
                    sheet' = (fst st5)(''A1'' := CStr (''Last updated: '' @ stamp))
                in (store_sheet (job_sheet_name job_code) sheet' wb1,
                    Updated (snd st5) job_code isotime))))"

record invoice_job_data =
  total_invoiced :: "real option"
  total_paid :: "real option"
  outstanding_balance :: "real option"
  payment_rate :: "real option"

text \<open>\<^verbatim>\<open>sheet[addr].value or 0\<close>: a falsy value (None, 0, the empty string) becomes 0.\<close>

definition value_or_0 :: "cell_value \<Rightarrow> cell_value" where
  "value_or_0 v = (case v of CNone \<Rightarrow> CNum 0 | CNum x \<Rightarrow> CNum x
                   | CStr s \<Rightarrow> if s = [] then CNum 0 else CStr s)"

definition get_or :: "'a option \<Rightarrow> 'a \<Rightarrow> 'a" where
  "get_or x d = (case x of None \<Rightarrow> d | Some v \<Rightarrow> v)"

text \<open>
  The projected-margin step. \<^verbatim>\<open>contract_value - total_costs\<close> raises TypeError when the
  total-costs cell holds a (non-empty) string.
\<close>

definition update_margin ::
  "update_rules \<Rightarrow> (real \<Rightarrow> string) \<Rightarrow> worksheet \<times> string list
     \<Rightarrow> pyerror + worksheet \<times> string list" where
  "update_margin rules fmt st =
     (let contract_value_cell = get_or (cell_mappings rules ''total_contract_value'') ''C3'';
          contract_value = value_or_0 (fst st contract_value_cell)
      in case contract_value of
           CNum cv \<Rightarrow>
             if cv > 0 then
               (let total_costs_cell = get_or (cell_mappings rules ''total_costs'') ''C5'';
                    total_costs = value_or_0 (fst st total_costs_cell)
                in case total_costs of
                     CNum tc \<Rightarrow>
                       Inr (apply_update rules fmt st ''projected_margin'' ''Projected margin'' (cv - tc))
                   | _ \<Rightarrow> Inl (TypeError ''unsupported operand type(s) for -''))
             else Inr st
         | _ \<Rightarrow> Inr st)"

text \<open>\<open>fmt1\<close> stands for the \<^verbatim>\<open>:.1f\<close> formatting of the payment rate.\<close>

definition update_cvr_with_invoice ::
  "update_rules \<Rightarrow> (real \<Rightarrow> string) \<Rightarrow> (real \<Rightarrow> string) \<Rightarrow> string \<Rightarrow> string \<Rightarrow> workbook
     \<Rightarrow> (string \<rightharpoonup> invoice_job_data) \<Rightarrow> string \<Rightarrow> workbook \<times> update_result" where
  "update_cvr_with_invoice rules fmt fmt1 stamp isotime wb invoice_data job_code =
     (case get_or_create_job_sheet wb job_code of
        Inl e \<Rightarrow> (wb, Failed (str_of_error e))
      | Inr (wb1, sheet) \<Rightarrow>
          (case invoice_data job_code of
             None \<Rightarrow> (wb, Failed (''Job '' @ job_code @ '' not found in Invoice data''))
           | Some job_data \<Rightarrow>
               (let st1 = apply_update rules fmt (sheet, []) ''total_invoiced'' ''Total invoiced''
                            (get_or (total_invoiced job_data) 0)
                in case update_margin rules fmt st1 of
                     Inl e \<Rightarrow> (wb, Failed (str_of_error e))
                   | Inr st2 \<Rightarrow>
                       (let sheet' = (fst st2)
                              (''E1'' := CStr ''Payment Tracking'',
                               ''E2'' := CStr ''Total Paid'',
                               ''F2'' := CNum (get_or (total_paid job_data) 0),
                               ''E3'' := CStr ''Outstanding Balance'',
                               ''F3'' := CNum (get_or (outstanding_balance job_data) 0),
                               ''E4'' := CStr ''Payment Rate'',
                               ''F4'' := CStr (fmt1 (get_or (payment_rate job_data) 0) @ ''%''),
                               ''A1'' := CStr (''Last updated: '' @ stamp))
                        in (store_sheet (job_sheet_name job_code) sheet' wb1,
                            Updated (snd st2) job_code isotime)))))"

definition job_sheet :: "workbook \<Rightarrow> string \<Rightarrow> worksheet option" where
  "job_sheet wb job_code = map_of wb (job_sheet_name job_code)"


definition apply_updates ::
  "update_rules \<Rightarrow> (real \<Rightarrow> string) \<Rightarrow> worksheet \<times> string list \<Rightarrow> (string \<times> string \<times> real) list
     \<Rightarrow> worksheet \<times> string list" where
  "apply_updates rules fmt st flds = foldl (\<lambda>st (k, l, v). apply_update rules fmt st k l v) st flds"

subsection \<open>Example inputs for the ledger updater\<close>

definition ex_sheet :: worksheet where
  "ex_sheet = (\<lambda>_. CNone)(''A1'' := CStr ''=TODAY()'', ''C5'' := CStr ''=SUM(A1:A5)'',
                            ''E1'' := CStr ''=C3-C5'', ''F2'' := CStr ''=C4'')"

definition ex_workbook :: workbook where
  "ex_workbook = [(''Template'', \<lambda>_. CNone), (''Job_J1'', ex_sheet)]"

definition ex_pnl :: "string \<rightharpoonup> pnl_job_data" where
  "ex_pnl = [''J1'' \<mapsto> \<lparr>total_expenses = Some 100,
                         expense_breakdown = Some [(''Materials - cable'', 40), (''Wages'', - 60)]\<rparr>]"

definition ex_invoices :: "string \<rightharpoonup> invoice_job_data" where
  "ex_invoices = [''J1'' \<mapsto> \<lparr>total_invoiced = Some (- 5), total_paid = Some 70,
                              outstanding_balance = Some 30, payment_rate = Some 70\<rparr>]"

text \<open>
  \<open>ex_fmt\<close> and \<open>ex_fmt1\<close> stand in for the \<^verbatim>\<open>:,.2f\<close> and \<^verbatim>\<open>:.1f\<close> formats in the examples
  of this section: on the whole numbers below 1000 formatted there they give what Python
  gives.
\<close>

definition ex_fmt :: "real \<Rightarrow> string" where
  "ex_fmt x = (if x < 0 then ''-'' else []) @ string_of_nat (nat \<lfloor>\<bar>x\<bar>\<rfloor>) @ ''.00''"

definition ex_fmt1 :: "real \<Rightarrow> string" where
  "ex_fmt1 x = (if x < 0 then ''-'' else []) @ string_of_nat (nat \<lfloor>\<bar>x\<bar>\<rfloor>) @ ''.0''"

text \<open>
  Two rule files that differ from the default one in a single address: the labour field
  shares the cell of the material field, or is mapped to the timestamp cell.
\<close>

definition ex_shared_rules :: update_rules where
  "ex_shared_rules =
     default_rules\<lparr>cell_mappings := (cell_mappings default_rules)(''labour_costs'' \<mapsto> ''C6'')\<rparr>"

definition ex_stamp_rules :: update_rules where
  "ex_stamp_rules =
     default_rules\<lparr>cell_mappings := (cell_mappings default_rules)(''labour_costs'' \<mapsto> ''A1'')\<rparr>"

text \<open>The rules of a \<^verbatim>\<open>CVRUpdater\<close> on which \<^verbatim>\<open>load_update_rules\<close> was never called: \<^verbatim>\<open>{}\<close>.\<close>

definition initial_rules :: update_rules where
  "initial_rules = \<lparr>cell_mappings = Map.empty, cost_categories = Map.empty,
                     only_positive_values = None, preserve_formulas = None\<rparr>"

section \<open>The persistent store (backend/models.py, backend/crud.py)\<close>

subsection \<open>Rows\<close>

text \<open>
  \<^verbatim>\<open>class ExpenseCategory(str, Enum)\<close> with its five members; \<open>ExpenseCategory_value\<close> is
  the member's \<^verbatim>\<open>.value\<close>. Rows carry the columns the modelled functions read; times are
  whole seconds.
\<close>

datatype ExpenseCategory = material | labour | plant_machinery | overheads | subcontractor

fun ExpenseCategory_value :: "ExpenseCategory \<Rightarrow> string" where
  "ExpenseCategory_value material = ''material''"
| "ExpenseCategory_value labour = ''labour''"
| "ExpenseCategory_value plant_machinery = ''plant_machinery''"
| "ExpenseCategory_value overheads = ''overheads''"
| "ExpenseCategory_value subcontractor = ''subcontractor''"

record Job =
  job_id :: nat
  job_code :: string
  job_name :: string
  client :: string
  contract_value :: real
  amended_value :: real
  estimated_final_cost :: real

record Expense =
  expense_id :: nat
  expense_job_id :: nat
  expense_category :: ExpenseCategory
  expense_description :: string
  expense_amount :: real

record Invoice =
  invoice_id :: nat
  invoice_job_id :: nat
  invoice_number :: string
  invoice_amount :: real
  due_date :: int
  is_paid :: bool

record Variation =
  variation_id :: nat
  variation_job_id :: nat
  variation_amount :: real
  variation_approved :: bool

record Budget =
  budget_id :: nat
  budget_job_id :: nat
  budget_category :: ExpenseCategory
  budgeted_amount :: real

record Alert =
  alert_id :: nat
  alert_job_id :: nat
  alert_type :: string
  message :: string
  severity :: string
  is_acknowledged :: bool

record database =
  jobs :: "Job list"
  expenses :: "Expense list"
  invoices :: "Invoice list"
  variations :: "Variation list"
  budgets :: "Budget list"
  alerts :: "Alert list"

subsection \<open>Queries\<close>

definition get_job_by_code :: "database \<Rightarrow> string \<Rightarrow> Job option" where
  "get_job_by_code db code = find (\<lambda>j. job_code j = code) (jobs db)"

definition get_job_by_id :: "database \<Rightarrow> nat \<Rightarrow> Job option" where
  "get_job_by_id db jid = find (\<lambda>j. job_id j = jid) (jobs db)"

definition get_expenses_by_job :: "database \<Rightarrow> nat \<Rightarrow> Expense list" where
  "get_expenses_by_job db jid = filter (\<lambda>e. expense_job_id e = jid) (expenses db)"

definition get_budgets_by_job :: "database \<Rightarrow> nat \<Rightarrow> Budget list" where
  "get_budgets_by_job db jid = filter (\<lambda>b. budget_job_id b = jid) (budgets db)"

text \<open>\<^verbatim>\<open>db.query(func.sum(Expense.amount)).filter(...).scalar() or 0.0\<close>\<close>

definition actual_spend :: "database \<Rightarrow> nat \<Rightarrow> ExpenseCategory \<Rightarrow> real" where
  "actual_spend db jid cat =
     sum_list (map expense_amount
       (filter (\<lambda>e. expense_job_id e = jid \<and> expense_category e = cat) (expenses db)))"

subsection \<open>Budget overruns and their alerts\<close>

record overrun =
  o_category :: string
  o_budgeted :: real
  o_actual :: real
  o_overrun :: real
  o_percentage_over :: real

text \<open>
  The loop of \<^verbatim>\<open>check_budget_overruns\<close>. The division by \<^verbatim>\<open>budget.budgeted_amount\<close> has
  no guard: Python raises ZeroDivisionError when the budget is 0 and the spend is positive.
\<close>

fun overruns_loop :: "database \<Rightarrow> nat \<Rightarrow> Budget list \<Rightarrow> pyerror + overrun list" where
  "overruns_loop db jid [] = Inr []"
| "overruns_loop db jid (budget # rest) =
     (let spend = actual_spend db jid (budget_category budget) in
      if spend > budgeted_amount budget then
        (if budgeted_amount budget = 0 then Inl ZeroDivisionError
         else
           (case overruns_loop db jid rest of
              Inl e \<Rightarrow> Inl e
            | Inr os \<Rightarrow>
                Inr (\<lparr>o_category = ExpenseCategory_value (budget_category budget),
                       o_budgeted = budgeted_amount budget,
                       o_actual = spend,
                       o_overrun = spend - budgeted_amount budget,
                       o_percentage_over =
                         ((spend - budgeted_amount budget) / budgeted_amount budget) * 100\<rparr> # os)))
      else overruns_loop db jid rest)"

definition check_budget_overruns :: "database \<Rightarrow> nat \<Rightarrow> pyerror + overrun list" where
  "check_budget_overruns db jid = overruns_loop db jid (get_budgets_by_job db jid)"

text \<open>\<^verbatim>\<open>create_alert\<close>: the new row gets the next primary key and the column default
  \<^verbatim>\<open>is_acknowledged = False\<close>; it is committed at once.\<close>

definition next_alert_id :: "database \<Rightarrow> nat" where
  "next_alert_id db = Suc (fold max (map alert_id (alerts db)) 0)"

definition create_alert :: "database \<Rightarrow> nat \<Rightarrow> string \<Rightarrow> string \<Rightarrow> string \<Rightarrow> database \<times> Alert" where
  "create_alert db jid atype msg sev =
     (let db_alert = \<lparr>alert_id = next_alert_id db, alert_job_id = jid, alert_type = atype,
                       message = msg, severity = sev, is_acknowledged = False\<rparr>
      in (db\<lparr>alerts := alerts db @ [db_alert]\<rparr>, db_alert))"

text \<open>
  The de-duplication query: the unacknowledged alerts of the given type for the job whose
  message contains the subject (\<^verbatim>\<open>Alert.message.contains(...)\<close>, read as substring
  containment; the SQL backend's own LIKE wildcards and case folding are not modelled).
\<close>

definition existing_alerts :: "database \<Rightarrow> nat \<Rightarrow> string \<Rightarrow> string \<Rightarrow> Alert list" where
  "existing_alerts db jid atype subject =
     filter (\<lambda>a. alert_job_id a = jid \<and> alert_type a = atype \<and> sublist subject (message a) \<and>
                 is_acknowledged a = False) (alerts db)"

text \<open>\<open>fmt2\<close> and \<open>fmt1\<close> stand for Python's \<^verbatim>\<open>:.2f\<close> and \<^verbatim>\<open>:.1f\<close> formatting.\<close>

definition budget_alert_message :: "(real \<Rightarrow> string) \<Rightarrow> (real \<Rightarrow> string) \<Rightarrow> overrun \<Rightarrow> string" where
  "budget_alert_message fmt2 fmt1 ov =
     ''Budget overrun in '' @ o_category ov @ '': '' @ pound @ fmt2 (o_overrun ov) @
     '' over budget ('' @ fmt1 (o_percentage_over ov) @ ''%)''"

definition budget_alert_severity :: "overrun \<Rightarrow> string" where
  "budget_alert_severity ov = (if o_percentage_over ov > 20 then ''high'' else ''medium'')"

fun budget_alerts_loop ::
  "(real \<Rightarrow> string) \<Rightarrow> (real \<Rightarrow> string) \<Rightarrow> nat \<Rightarrow> overrun list \<Rightarrow> database \<times> Alert list
     \<Rightarrow> database \<times> Alert list" where
  "budget_alerts_loop fmt2 fmt1 jid [] st = st"
| "budget_alerts_loop fmt2 fmt1 jid (ov # rest) (db, created_alerts) =
     (if existing_alerts db jid ''budget_overrun'' (o_category ov) = [] then
        (case create_alert db jid ''budget_overrun'' (budget_alert_message fmt2 fmt1 ov)
                (budget_alert_severity ov) of
           (db', alert) \<Rightarrow> budget_alerts_loop fmt2 fmt1 jid rest (db', created_alerts @ [alert]))
      else budget_alerts_loop fmt2 fmt1 jid rest (db, created_alerts))"

definition check_and_create_budget_alerts ::
  "(real \<Rightarrow> string) \<Rightarrow> (real \<Rightarrow> string) \<Rightarrow> database \<Rightarrow> nat \<Rightarrow> pyerror + database \<times> Alert list" where
  "check_and_create_budget_alerts fmt2 fmt1 db jid =
     (case check_budget_overruns db jid of
        Inl e \<Rightarrow> Inl e
      | Inr overruns \<Rightarrow> Inr (budget_alerts_loop fmt2 fmt1 jid overruns (db, [])))"

subsection \<open>Overdue invoices and their alerts\<close>

text \<open>\<^verbatim>\<open>if job_id:\<close> filters only for a job id that is given and not 0.\<close>

definition get_overdue_invoices :: "int \<Rightarrow> database \<Rightarrow> nat option \<Rightarrow> Invoice list" where
  "get_overdue_invoices now db jid =
     (let overdue = filter (\<lambda>i. is_paid i = False \<and> due_date i < now) (invoices db) in
      case jid of
        None \<Rightarrow> overdue
      | Some j \<Rightarrow> if j = 0 then overdue else filter (\<lambda>i. invoice_job_id i = j) overdue)"

text \<open>\<^verbatim>\<open>(datetime.utcnow() - invoice.due_date).days\<close>: whole days, rounded down.\<close>

definition days_overdue :: "int \<Rightarrow> Invoice \<Rightarrow> int" where
  "days_overdue now invoice = (now - due_date invoice) div 86400"

definition string_of_int :: "int \<Rightarrow> string" where
  "string_of_int i = (if 0 \<le> i then [] else [CHR ''-'']) @ string_of_nat (nat \<bar>i\<bar>)"

definition invoice_alert_message :: "(real \<Rightarrow> string) \<Rightarrow> int \<Rightarrow> Invoice \<Rightarrow> string" where
  "invoice_alert_message fmt2 now invoice =
     ''Invoice '' @ invoice_number invoice @ '' is '' @ string_of_int (days_overdue now invoice) @
     '' days overdue ('' @ pound @ fmt2 (invoice_amount invoice) @ '')''"

definition invoice_alert_severity :: "int \<Rightarrow> Invoice \<Rightarrow> string" where
  "invoice_alert_severity now invoice = (if days_overdue now invoice > 30 then ''high'' else ''medium'')"

fun invoice_alerts_loop ::
  "(real \<Rightarrow> string) \<Rightarrow> int \<Rightarrow> Invoice list \<Rightarrow> database \<times> Alert list \<Rightarrow> database \<times> Alert list" where
  "invoice_alerts_loop fmt2 now [] st = st"
| "invoice_alerts_loop fmt2 now (invoice # rest) (db, created_alerts) =
     (if existing_alerts db (invoice_job_id invoice) ''overdue_invoice'' (invoice_number invoice) = [] then
        (case create_alert db (invoice_job_id invoice) ''overdue_invoice''
                (invoice_alert_message fmt2 now invoice) (invoice_alert_severity now invoice) of
           (db', alert) \<Rightarrow> invoice_alerts_loop fmt2 now rest (db', created_alerts @ [alert]))
      else invoice_alerts_loop fmt2 now rest (db, created_alerts))"

definition check_and_create_invoice_alerts ::
  "(real \<Rightarrow> string) \<Rightarrow> int \<Rightarrow> database \<Rightarrow> nat option \<Rightarrow> database \<times> Alert list" where
  "check_and_create_invoice_alerts fmt2 now db jid =
     invoice_alerts_loop fmt2 now (get_overdue_invoices now db jid) (db, [])"

subsection \<open>Notions used to state the alert properties\<close>

text \<open>The characters a finite number formatted with \<^verbatim>\<open>:.2f\<close> or \<^verbatim>\<open>:.1f\<close> consists of.\<close>

definition numeric_string :: "string \<Rightarrow> bool" where
  "numeric_string s = (set s \<subseteq> set ''0123456789.-'')"

text \<open>The live (unacknowledged) budget alerts of a job that the query finds for a category.\<close>

definition live_budget_alerts :: "database \<Rightarrow> nat \<Rightarrow> ExpenseCategory \<Rightarrow> Alert list" where
  "live_budget_alerts db jid c = existing_alerts db jid ''budget_overrun'' (ExpenseCategory_value c)"

subsection \<open>An example store\<close>

definition ex_db :: database where
  "ex_db = \<lparr>
     jobs = [\<lparr>job_id = 1, job_code = ''NDA-001'', job_name = ''HV cable'', client = ''SGN'',
              contract_value = 10000, amended_value = 10000, estimated_final_cost = 8000\<rparr>],
     expenses =
       [\<lparr>expense_id = 1, expense_job_id = 1, expense_category = material,
         expense_description = ''cable'', expense_amount = 1500\<rparr>,
        \<lparr>expense_id = 2, expense_job_id = 1, expense_category = labour,
         expense_description = ''wages'', expense_amount = 300\<rparr>],
     invoices =
       [\<lparr>invoice_id = 1, invoice_job_id = 1, invoice_number = ''INV-7'', invoice_amount = 200,
         due_date = 0, is_paid = False\<rparr>,
        \<lparr>invoice_id = 2, invoice_job_id = 1, invoice_number = ''INV-8'', invoice_amount = 50,
         due_date = 40 * 86400 - 1, is_paid = False\<rparr>],
     variations = [],
     budgets =
       [\<lparr>budget_id = 1, budget_job_id = 1, budget_category = material, budgeted_amount = 1000\<rparr>,
        \<lparr>budget_id = 2, budget_job_id = 1, budget_category = labour, budgeted_amount = 500\<rparr>],
     alerts = [] \<rparr>"

section \<open>Python attribute lookup on the model classes\<close>

text \<open>
  Python resolves \<^verbatim>\<open>obj.name\<close> at run time and raises AttributeError for a name the
  object does not have. \<open>Budget_getattr\<close> is the lookup on a row of \<^verbatim>\<open>class Budget\<close>
  (columns \<^verbatim>\<open>id, job_id, category, budgeted_amount, created_at, updated_at\<close> and the
  relationship \<^verbatim>\<open>job\<close>); \<open>ExpenseCategory_getattr\<close> is the lookup of a member on the enum
  class. Names the ORM and \<^verbatim>\<open>str\<close> add on their own are left out; none of them is
  looked up by the code modelled here.
\<close>

datatype pyval = PNone | PInt int | PFloat real | PStr string | PCategory ExpenseCategory | PObject string

definition quoted :: "string \<Rightarrow> string" where
  "quoted s = [CHR 0x27] @ s @ [CHR 0x27]"

definition Budget_getattr :: "Budget \<Rightarrow> string \<Rightarrow> pyerror + pyval" where
  "Budget_getattr b name =
     (if name = ''id'' then Inr (PInt (int (budget_id b)))
      else if name = ''job_id'' then Inr (PInt (int (budget_job_id b)))
      else if name = ''category'' then Inr (PCategory (budget_category b))
      else if name = ''budgeted_amount'' then Inr (PFloat (budgeted_amount b))
      else if name = ''created_at'' \<or> name = ''updated_at'' then Inr (PObject ''datetime'')
      else if name = ''job'' then Inr (PObject ''Job'')
      else Inl (AttributeError (quoted ''Budget'' @ '' object has no attribute '' @ quoted name)))"

definition ExpenseCategory_getattr :: "string \<Rightarrow> pyerror + ExpenseCategory" where
  "ExpenseCategory_getattr name =
     (if name = ''material'' then Inr material
      else if name = ''labour'' then Inr labour
      else if name = ''plant_machinery'' then Inr plant_machinery
      else if name = ''overheads'' then Inr overheads
      else if name = ''subcontractor'' then Inr subcontractor
      else Inl (AttributeError name))"

section \<open>Budget evaluation (backend/utils/budget\_check.py)\<close>

text \<open>\<^verbatim>\<open>self.alert_config.get('alert_thresholds', {})\<close> and its three optional entries.\<close>

record alert_thresholds =
  warning :: "real option"
  critical :: "real option"
  exceeded :: "real option"

definition default_thresholds :: alert_thresholds where
  "default_thresholds = \<lparr>warning = Some 0.8, critical = Some 0.95, exceeded = Some 1.0\<rparr>"

definition get_alert_level :: "alert_thresholds \<Rightarrow> real \<Rightarrow> string" where
  "get_alert_level thresholds percentage_used =
     (if percentage_used \<ge> get_or (exceeded thresholds) 1.0 then ''exceeded''
      else if percentage_used \<ge> get_or (critical thresholds) 0.95 then ''critical''
      else if percentage_used \<ge> get_or (warning thresholds) 0.8 then ''warning''
      else ''normal'')"

definition calculate_expense_totals :: "Expense list \<Rightarrow> (ExpenseCategory \<rightharpoonup> real)" where
  "calculate_expense_totals es =
     fold (\<lambda>expense totals.
             totals(expense_category expense \<mapsto>
               get_or (totals (expense_category expense)) 0 + expense_amount expense))
          es Map.empty"

text \<open>Assignment \<^verbatim>\<open>d[k] = v\<close> on a dictionary kept as an association list in insertion order.\<close>

fun dict_set :: "'k \<Rightarrow> 'v \<Rightarrow> ('k \<times> 'v) list \<Rightarrow> ('k \<times> 'v) list" where
  "dict_set k v [] = [(k, v)]"
| "dict_set k v ((k', v') # rest) = (if k' = k then (k, v) # rest else (k', v') # dict_set k v rest)"

record budget_status =
  bs_budget_amount :: real
  bs_actual_amount :: real
  bs_percentage_used :: real
  bs_remaining_budget :: real
  bs_alert_level :: string
  bs_over_budget :: bool

record budget_alert =
  ba_job_code :: string
  ba_category :: ExpenseCategory
  ba_alert_level :: string
  ba_budget_amount :: real
  ba_actual_amount :: real
  ba_percentage_used :: real
  ba_over_budget :: bool
  ba_timestamp :: string

text \<open>
  The loop over the job's budget rows (lines 115 to 146). It reads \<^verbatim>\<open>budget.category\<close>
  and \<^verbatim>\<open>budget.amount\<close>; an exception leaves the loop.
\<close>

fun check_budgets_loop ::
  "alert_thresholds \<Rightarrow> string \<Rightarrow> string \<Rightarrow> (ExpenseCategory \<rightharpoonup> real) \<Rightarrow> Budget list
     \<Rightarrow> (ExpenseCategory \<times> budget_status) list \<times> budget_alert list
     \<Rightarrow> pyerror + (ExpenseCategory \<times> budget_status) list \<times> budget_alert list" where
  "check_budgets_loop thresholds code ts expense_totals [] st = Inr st"
| "check_budgets_loop thresholds code ts expense_totals (budget # rest) (status, alert_list) =
     (case Budget_getattr budget ''category'' of
        Inl e \<Rightarrow> Inl e
      | Inr cv \<Rightarrow>
          (case Budget_getattr budget ''amount'' of
             Inl e \<Rightarrow> Inl e
           | Inr av \<Rightarrow>
               (case (cv, av) of
                  (PCategory category, PFloat budget_amount) \<Rightarrow>
                    (let actual_amount = get_or (expense_totals category) 0;
                         percentage_used =
                           (if budget_amount > 0 then actual_amount / budget_amount else 0);
                         alert_level = get_alert_level thresholds percentage_used;
                         status' = dict_set category
                           \<lparr>bs_budget_amount = budget_amount, bs_actual_amount = actual_amount,
                            bs_percentage_used = percentage_used * 100,
                            bs_remaining_budget = budget_amount - actual_amount,
                            bs_alert_level = alert_level,
                            bs_over_budget = (actual_amount > budget_amount)\<rparr> status;
                         alert_list' =
                           (if alert_level \<noteq> ''normal'' then
                              alert_list @
                                [\<lparr>ba_job_code = code, ba_category = category,
                                  ba_alert_level = alert_level, ba_budget_amount = budget_amount,
                                  ba_actual_amount = actual_amount,
                                  ba_percentage_used = percentage_used * 100,
                                  ba_over_budget = (actual_amount > budget_amount),
                                  ba_timestamp = ts\<rparr>]
                            else alert_list)
                     in check_budgets_loop thresholds code ts expense_totals rest (status', alert_list'))
                | _ \<Rightarrow> Inl (TypeError ''unsupported operand''))))"

datatype budget_check_result =
    CheckFailed string
  | CheckOk string "(ExpenseCategory \<times> budget_status) list" "budget_alert list" nat string

text \<open>
  \<^verbatim>\<open>check_job_budgets\<close>; \<open>ts\<close> is the clock reading. Sending the e-mails
  (\<^verbatim>\<open>_send_alerts\<close>, which catches its own exceptions) does not change the result and is
  left out.
\<close>

definition check_job_budgets ::
  "alert_thresholds \<Rightarrow> string \<Rightarrow> database \<Rightarrow> string \<Rightarrow> budget_check_result" where
  "check_job_budgets thresholds ts db code =
     (case get_job_by_code db code of
        None \<Rightarrow> CheckFailed (''Job '' @ code @ '' not found'')
      | Some job \<Rightarrow>
          (let expense_rows = get_expenses_by_job db (job_id job);
               budget_rows = get_budgets_by_job db (job_id job)
           in if budget_rows = [] then CheckFailed (''No budgets found for job '' @ code)
              else
                (case check_budgets_loop thresholds code ts
                        (calculate_expense_totals expense_rows) budget_rows ([], []) of
                   Inl e \<Rightarrow> CheckFailed (''Error checking budgets: '' @ str_of_error e)
                 | Inr (status, alert_list) \<Rightarrow>
                     CheckOk code status alert_list (length alert_list) ts)))"

definition ex_budget_db :: database where
  "ex_budget_db = \<lparr>
     jobs = [\<lparr>job_id = 1, job_code = ''NDA-001'', job_name = ''HV cable'', client = ''SGN'',
              contract_value = 10000, amended_value = 10000, estimated_final_cost = 8000\<rparr>],
     expenses =
       [\<lparr>expense_id = 1, expense_job_id = 1, expense_category = material,
         expense_description = ''cable'', expense_amount = 950\<rparr>],
     invoices = [], variations = [],
     budgets =
       [\<lparr>budget_id = 1, budget_job_id = 1, budget_category = material, budgeted_amount = 1000\<rparr>],
     alerts = [] \<rparr>"

section \<open>The P&L parser (backend/utils/parse\_pnl.py)\<close>

subsection \<open>The expense classifier\<close>

definition material_keywords :: "string list" where
  "material_keywords = [''material'', ''cable'', ''pipe'', ''joint'', ''concrete'', ''aggregate'', ''sand'', ''cement'']"

definition labor_keywords :: "string list" where
  "labor_keywords = [''wage'', ''salary'', ''labor'', ''labour'', ''staff'', ''payroll'', ''overtime'']"

definition plant_keywords :: "string list" where
  "plant_keywords = [''plant'', ''machinery'', ''equipment'', ''hire'', ''rental'', ''excavator'', ''truck'']"

definition subcontractor_keywords :: "string list" where
  "subcontractor_keywords = [''subcontractor'', ''sub-contractor'', ''contractor'', ''outsource'']"

definition transport_keywords :: "string list" where
  "transport_keywords = [''transport'', ''delivery'', ''fuel'', ''vehicle'', ''mileage'']"

text \<open>\<^verbatim>\<open>any(keyword in description for keyword in keywords)\<close>\<close>

definition any_keyword_in :: "string list \<Rightarrow> string \<Rightarrow> bool" where
  "any_keyword_in keywords description = list_ex (\<lambda>keyword. sublist keyword description) keywords"

text \<open>
  \<^verbatim>\<open>categorize_expense\<close>. Each branch returns a member looked up on the enum class by the
  name the source writes: \<^verbatim>\<open>materials, labor, plant_machinery, subcontractors, transport,
  other\<close>. (\<^verbatim>\<open>lower\<close> and \<^verbatim>\<open>strip\<close> are modelled on ASCII.)
\<close>

definition categorize_expense :: "string \<Rightarrow> pyerror + ExpenseCategory" where
  "categorize_expense description0 =
     (let description = strip (lower description0) in
      if any_keyword_in material_keywords description then ExpenseCategory_getattr ''materials''
      else if any_keyword_in labor_keywords description then ExpenseCategory_getattr ''labor''
      else if any_keyword_in plant_keywords description then ExpenseCategory_getattr ''plant_machinery''
      else if any_keyword_in subcontractor_keywords description
        then ExpenseCategory_getattr ''subcontractors''
      else if any_keyword_in transport_keywords description then ExpenseCategory_getattr ''transport''
      else ExpenseCategory_getattr ''other'')"

subsection \<open>Job codes from class names\<close>

definition is_digit :: "char \<Rightarrow> bool" where
  "is_digit c = (let n = (of_char c :: nat) in 48 \<le> n \<and> n \<le> 57)"

definition is_letter :: "char \<Rightarrow> bool" where
  "is_letter c = (let n = (of_char (upper_char c) :: nat) in 65 \<le> n \<and> n \<le> 90)"

text \<open>
  \<^verbatim>\<open>re.search(pattern, s, re.IGNORECASE)\<close>: the leftmost position at which the pattern
  matches, and the text matched there. A pattern is given by its match at the start of a
  string. All repetitions in the three patterns are greedy and are followed by characters
  outside the repeated class, so the match at a position is unique. (ASCII letters and
  digits only.)
\<close>

fun re_search :: "(string \<Rightarrow> string option) \<Rightarrow> string \<Rightarrow> string option" where
  "re_search m [] = m []"
| "re_search m (c # cs) = (case m (c # cs) of Some x \<Rightarrow> Some x | None \<Rightarrow> re_search m cs)"

text \<open>\<^verbatim>\<open>\d+\<close> at the start of \<open>s\<close>\<close>

definition digits1 :: "string \<Rightarrow> string option" where
  "digits1 s = (let ds = takeWhile is_digit s in if ds = [] then None else Some ds)"

text \<open>\<^verbatim>\<open>-\d{4}-\d+\<close> at the start of \<open>s\<close>\<close>

definition year_number :: "string \<Rightarrow> string option" where
  "year_number s =
     (if length s \<ge> 6 \<and> s ! 0 = CHR ''-'' \<and> list_all is_digit (take 4 (drop 1 s)) \<and> s ! 5 = CHR ''-''
      then (case digits1 (drop 6 s) of None \<Rightarrow> None | Some ds \<Rightarrow> Some (take 6 s @ ds))
      else None)"

text \<open>Pattern 1: \<^verbatim>\<open>JOB\d+\<close>\<close>

definition pattern1 :: "string \<Rightarrow> string option" where
  "pattern1 s =
     (if upper (take 3 s) = ''JOB''
      then (case digits1 (drop 3 s) of None \<Rightarrow> None | Some ds \<Rightarrow> Some (take 3 s @ ds))
      else None)"

text \<open>Pattern 2: \<^verbatim>\<open>SGN-\d{4}-\d+\<close>\<close>

definition pattern2 :: "string \<Rightarrow> string option" where
  "pattern2 s =
     (if upper (take 3 s) = ''SGN''
      then (case year_number (drop 3 s) of None \<Rightarrow> None | Some r \<Rightarrow> Some (take 3 s @ r))
      else None)"

text \<open>Pattern 3: \<^verbatim>\<open>[A-Z]{2,}-\d{4}-\d+\<close>\<close>

definition pattern3 :: "string \<Rightarrow> string option" where
  "pattern3 s =
     (let letters = takeWhile is_letter s in
      if length letters \<ge> 2
      then (case year_number (drop (length letters) s) of None \<Rightarrow> None | Some r \<Rightarrow> Some (letters @ r))
      else None)"

text \<open>
  \<^verbatim>\<open>extract_job_code_from_class\<close> on the text of a column header (\<^verbatim>\<open>str(col)\<close>).
\<close>

definition extract_job_code_from_class :: "string \<Rightarrow> string option" where
  "extract_job_code_from_class class_name0 =
     (if class_name0 = [] \<or> class_name0 = ''Not Specified'' then None
      else
        (let class_name = strip class_name0 in
         case re_search pattern1 class_name of
           Some m \<Rightarrow> Some (upper m)
         | None \<Rightarrow>
             (case re_search pattern2 class_name of
                Some m \<Rightarrow> Some (upper m)
              | None \<Rightarrow>
                  (case re_search pattern3 class_name of
                     Some m \<Rightarrow> Some (upper m)
                   | None \<Rightarrow> Some (upper class_name)))))"

subsection \<open>Processing the sheet\<close>

text \<open>
  A data frame: its column labels and its rows, each row holding one cell per column. A
  cell is a number, a string or NaN.
\<close>

datatype df_cell = DNum real | DStr string | DNaN

record dataframe =
  df_columns :: "string list"
  df_rows :: "df_cell list list"

text \<open>\<^verbatim>\<open>row.get(col, default)\<close>\<close>

definition row_get :: "string list \<Rightarrow> df_cell list \<Rightarrow> string \<Rightarrow> df_cell \<Rightarrow> df_cell" where
  "row_get cols row col dflt = get_or (map_of (zip cols row) col) dflt"

text \<open>
  The pydantic model \<^verbatim>\<open>JobCreate\<close> (\<^verbatim>\<open>JobBase\<close>): the fields without a default are
  required, and constructing the model without one of them raises a validation error.
\<close>

definition JobCreate_required :: "string list" where
  "JobCreate_required = [''job_code'', ''job_name'', ''client'', ''contract_value'',
                         ''amended_value'', ''estimated_final_cost'', ''status'']"

definition JobCreate_init :: "string list \<Rightarrow> pyerror + unit" where
  "JobCreate_init given =
     (case filter (\<lambda>f. f \<notin> set given) JobCreate_required of
        [] \<Rightarrow> Inr ()
      | missing # _ \<Rightarrow> Inl (ValidationError (missing @ '': field required'')))"

record expense_data =
  ed_job_id :: nat
  ed_category :: ExpenseCategory
  ed_description :: string
  ed_amount :: real

record pnl_parser =
  parser_db :: database
  job_mappings :: "(string \<times> nat) list"
  processed_expenses :: "expense_data list"

definition next_job_id :: "database \<Rightarrow> nat" where
  "next_job_id db = Suc (fold max (map job_id (jobs db)) 0)"

text \<open>
  \<^verbatim>\<open>create_job_if_not_exists\<close> builds \<^verbatim>\<open>JobCreate(job_code=, job_name=, client=, status=,
  contract_value=, progress_percentage=)\<close>; any exception is caught and None is returned.
\<close>

definition create_job_if_not_exists :: "pnl_parser \<Rightarrow> string \<Rightarrow> pnl_parser \<times> nat option" where
  "create_job_if_not_exists p code =
     (case JobCreate_init [''job_code'', ''job_name'', ''client'', ''status'', ''contract_value'',
                           ''progress_percentage''] of
        Inl e \<Rightarrow> (p, None)
      | Inr _ \<Rightarrow>
          (let new_id = next_job_id (parser_db p);
               job = \<lparr>job_id = new_id, job_code = code,
                      job_name = ''Auto-created from P&L: '' @ code, client = ''Unknown'',
                      contract_value = 0, amended_value = 0, estimated_final_cost = 0\<rparr>
           in (p\<lparr>parser_db := (parser_db p)\<lparr>jobs := jobs (parser_db p) @ [job]\<rparr>,
                  job_mappings := dict_set code new_id (job_mappings p)\<rparr>,
               Some new_id)))"

text \<open>\<^verbatim>\<open>str(x)\<close> of a cell; \<open>str_num\<close> stands for Python's printing of a number.\<close>

definition str_cell :: "(real \<Rightarrow> string) \<Rightarrow> df_cell \<Rightarrow> string" where
  "str_cell str_num c = (case c of DStr s \<Rightarrow> s | DNum x \<Rightarrow> str_num x | DNaN \<Rightarrow> ''nan'')"

text \<open>\<^verbatim>\<open>not x\<close> for a cell\<close>

definition cell_falsy :: "df_cell \<Rightarrow> bool" where
  "cell_falsy c = (case c of DStr s \<Rightarrow> s = [] | DNum x \<Rightarrow> x = 0 | DNaN \<Rightarrow> False)"

text \<open>
  The columns that carry a job: every label that is not blank, \<open>Account\<close> or \<open>Total\<close>
  and from which a job code is extracted.
\<close>

definition job_columns :: "string list \<Rightarrow> (string \<times> string) list" where
  "job_columns cols =
     concat (map (\<lambda>col.
        if col \<noteq> [] \<and> strip col \<noteq> [] \<and> strip col \<noteq> ''Account'' \<and> strip col \<noteq> ''Total''
        then (case extract_job_code_from_class col of None \<Rightarrow> [] | Some code \<Rightarrow> [(col, code)])
        else []) cols)"

definition skip_words :: "string list" where
  "skip_words = [''total'', ''income'', ''revenue'', ''gross profit'']"

text \<open>
  The state of the two loops: the parser, \<^verbatim>\<open>processed_count\<close> and \<^verbatim>\<open>skipped_count\<close>.
  One cell of a row: the body of the inner \<^verbatim>\<open>try\<close>, whose \<^verbatim>\<open>except\<close> counts the
  cell as skipped. \<open>parse_float\<close> stands for \<^verbatim>\<open>float(s)\<close> on a string.
\<close>

definition process_cell ::
  "(string \<Rightarrow> real option) \<Rightarrow> string list \<Rightarrow> df_cell list \<Rightarrow> string \<Rightarrow> pnl_parser \<times> nat \<times> nat
     \<Rightarrow> string \<times> string \<Rightarrow> pnl_parser \<times> nat \<times> nat" where
  "process_cell parse_float cols row account_name st colcode =
     (case st of (p, processed_count, skipped_count) \<Rightarrow>
      case colcode of (col_name, code) \<Rightarrow>
        (let amount = row_get cols row col_name (DNum 0) in
         if amount = DNaN \<or> amount = DNum 0 then st
         else
           (case (case amount of DNum x \<Rightarrow> Some \<bar>x\<bar>
                  | DStr s \<Rightarrow> map_option abs (parse_float s) | DNaN \<Rightarrow> None) of
              None \<Rightarrow> (p, processed_count, Suc skipped_count)
            | Some amt \<Rightarrow>
                (let found = map_of (job_mappings p) code;
                     (p1, jid) = (if found = None \<or> found = Some 0
                                  then create_job_if_not_exists p code else (p, found))
                 in case jid of
                      None \<Rightarrow> (p1, processed_count, skipped_count)
                    | Some j \<Rightarrow>
                        if j = 0 then (p1, processed_count, skipped_count)
                        else
                          (case categorize_expense account_name of
                             Inl e \<Rightarrow> (p1, processed_count, Suc skipped_count)
                           | Inr category \<Rightarrow>
                               (p1\<lparr>processed_expenses := processed_expenses p1 @
                                      [\<lparr>ed_job_id = j, ed_category = category,
                                        ed_description = account_name, ed_amount = amt\<rparr>]\<rparr>,
                                Suc processed_count, skipped_count))))))"

definition process_row ::
  "(real \<Rightarrow> string) \<Rightarrow> (string \<Rightarrow> real option) \<Rightarrow> string list \<Rightarrow> (string \<times> string) list
     \<Rightarrow> pnl_parser \<times> nat \<times> nat \<Rightarrow> df_cell list \<Rightarrow> pnl_parser \<times> nat \<times> nat" where
  "process_row str_num parse_float cols jcols st row =
     (let account0 = row_get cols row ''Account'' (DStr []) in
      if cell_falsy account0 \<or> account0 = DNaN then st
      else
        (let account_name = strip (str_cell str_num account0) in
         if list_ex (\<lambda>skip_word. sublist skip_word (lower account_name)) skip_words then st
         else foldl (process_cell parse_float cols row account_name) st jcols))"

record pnl_result =
  processed_count :: nat
  skipped_count :: nat
  total_expenses_count :: nat

definition process_pnl_data ::
  "(real \<Rightarrow> string) \<Rightarrow> (string \<Rightarrow> real option) \<Rightarrow> pnl_parser \<Rightarrow> dataframe \<Rightarrow> pnl_parser \<times> pnl_result" where
  "process_pnl_data str_num parse_float p df =
     (case foldl (process_row str_num parse_float (df_columns df) (job_columns (df_columns df)))
             (p, 0, 0) (df_rows df) of
        (p', processed, skipped) \<Rightarrow>
          (p', \<lparr>processed_count = processed, skipped_count = skipped,
                total_expenses_count = length (processed_expenses p')\<rparr>))"

subsection \<open>The example sheet of the specification\<close>

definition ex_pnl_sheet :: dataframe where
  "ex_pnl_sheet = \<lparr>df_columns = [''Account'', ''JOB001-Main Road''],
                    df_rows = [[DStr ''Materials'', DNum (- 150)]]\<rparr>"

definition empty_db :: database where
  "empty_db = \<lparr>jobs = [], expenses = [], invoices = [], variations = [], budgets = [], alerts = []\<rparr>"

definition ex_parser_known_job :: pnl_parser where
  "ex_parser_known_job = \<lparr>parser_db = ex_db, job_mappings = [(''JOB001'', 1)], processed_expenses = []\<rparr>"

definition ex_parser_no_jobs :: pnl_parser where
  "ex_parser_no_jobs = \<lparr>parser_db = empty_db, job_mappings = [], processed_expenses = []\<rparr>"

section \<open>The batch reconciliation pass (backend/utils/update\_cvr.py, lines 579 to 617)\<close>

subsection \<open>Per-job metrics (backend/crud.py)\<close>

record job_metrics =
  m_total_costs :: real
  m_total_invoiced :: real
  m_pending_invoices :: real
  m_amended_value :: real
  m_projected_margin :: real

definition get_total_expenses_by_job :: "database \<Rightarrow> nat \<Rightarrow> real" where
  "get_total_expenses_by_job db jid =
     sum_list (map expense_amount (filter (\<lambda>e. expense_job_id e = jid) (expenses db)))"

definition get_total_invoiced_by_job :: "database \<Rightarrow> nat \<Rightarrow> real" where
  "get_total_invoiced_by_job db jid =
     sum_list (map invoice_amount (filter (\<lambda>i. invoice_job_id i = jid) (invoices db)))"

definition get_approved_variations_total :: "database \<Rightarrow> nat \<Rightarrow> real" where
  "get_approved_variations_total db jid =
     sum_list (map variation_amount
       (filter (\<lambda>v. variation_job_id v = jid \<and> variation_approved v) (variations db)))"

text \<open>
  \<^verbatim>\<open>def get_job_detail_metrics(db, job_id)\<close>: the entries of the returned dictionary that
  the reconciliation pass reads.
\<close>

definition get_job_detail_metrics :: "database \<Rightarrow> nat \<Rightarrow> job_metrics option" where
  "get_job_detail_metrics db jid =
     (case get_job_by_id db jid of
        None \<Rightarrow> None
      | Some job \<Rightarrow>
          (let total_costs = get_total_expenses_by_job db jid;
               total_invoiced = get_total_invoiced_by_job db jid;
               approved_variations = get_approved_variations_total db jid;
               current_contract_value = contract_value job + approved_variations;
               projected_margin = current_contract_value - estimated_final_cost job;
               pending_invoices = max 0 (total_costs - total_invoiced)
           in Some \<lparr>m_total_costs = total_costs, m_total_invoiced = total_invoiced,
                     m_pending_invoices = pending_invoices,
                     m_amended_value = current_contract_value,
                     m_projected_margin = projected_margin\<rparr>))"

subsection \<open>Calling a function with keyword arguments\<close>

text \<open>
  Python binds a call's keyword arguments to the parameters of the function by name and
  raises TypeError for a keyword that names no parameter, or for a parameter left without
  a value. \<open>params\<close> are the parameters not bound positionally.
\<close>

definition bind_keywords :: "string list \<Rightarrow> string list \<Rightarrow> pyerror + unit" where
  "bind_keywords params given =
     (case filter (\<lambda>k. k \<notin> set params) given of
        k # _ \<Rightarrow> Inl (TypeError (''got an unexpected keyword argument '' @ quoted k))
      | [] \<Rightarrow>
          (case filter (\<lambda>p. p \<notin> set given) params of
             p # _ \<Rightarrow> Inl (TypeError (''missing 1 required positional argument: '' @ quoted p))
           | [] \<Rightarrow> Inr ()))"

text \<open>
  A call \<^verbatim>\<open>get_job_detail_metrics(db, **kwargs)\<close>: \<open>db\<close> is passed positionally, so the
  keywords must bind the one remaining parameter \<^verbatim>\<open>job_id\<close>. A value that is no job's
  numeric id finds no job.
\<close>

definition call_get_job_detail_metrics ::
  "database \<Rightarrow> (string \<times> cell_value) list \<Rightarrow> pyerror + job_metrics option" where
  "call_get_job_detail_metrics db kwargs =
     (case bind_keywords [''job_id''] (map fst kwargs) of
        Inl e \<Rightarrow> Inl e
      | Inr _ \<Rightarrow>
          (case map_of kwargs ''job_id'' of
             Some (CNum x) \<Rightarrow>
               if 0 \<le> x \<and> x = of_int \<lfloor>x\<rfloor> then Inr (get_job_detail_metrics db (nat \<lfloor>x\<rfloor>))
               else Inr None
           | _ \<Rightarrow> Inr None))"

subsection \<open>Templates, the processed directory and the pass\<close>

text \<open>
  A template's active sheet is its list of rows, the header row first. The two
  directories map file names to sheets.
\<close>

type_synonym grid = "cell_value list list"

record cvr_files =
  templates :: "(string \<times> grid) list"
  processed :: "(string \<times> grid) list"

text \<open>
  \<^verbatim>\<open>col_index = {cell.value: idx + 1 for idx, cell in enumerate(sheet[1])}\<close> and the lookup
  \<^verbatim>\<open>col_index[name] - 1\<close>: the last column whose header is \<open>name\<close>, KeyError if none.
\<close>

definition col_index :: "cell_value list \<Rightarrow> string \<Rightarrow> pyerror + nat" where
  "col_index header name =
     (case map_of (rev (zip header [0..<length header])) (CStr name) of
        None \<Rightarrow> Inl (KeyError (quoted name))
      | Some i \<Rightarrow> Inr i)"

definition cell_at :: "cell_value list \<Rightarrow> nat \<Rightarrow> cell_value" where
  "cell_at row i = (if i < length row then row ! i else CNone)"

definition set_cell :: "cell_value list \<Rightarrow> nat \<Rightarrow> cell_value \<Rightarrow> cell_value list" where
  "set_cell row i v = (if i < length row then row[i := v] else row @ replicate (i - length row) CNone @ [v])"

text \<open>
  The body of the loop for one data row. It calls
  \<^verbatim>\<open>get_job_detail_metrics(db, job_code=job_code)\<close>.
\<close>

definition process_template_row :: "database \<Rightarrow> cell_value list \<Rightarrow> cell_value list \<Rightarrow> pyerror + cell_value list" where
  "process_template_row db header row =
     (case col_index header ''Job Code'' of
        Inl e \<Rightarrow> Inl e
      | Inr jc \<Rightarrow>
          (case call_get_job_detail_metrics db [(''job_code'', cell_at row jc)] of
             Inl e \<Rightarrow> Inl e
           | Inr None \<Rightarrow> Inr row
           | Inr (Some metrics) \<Rightarrow>
               (case col_index header ''Cost to Date'' of Inl e \<Rightarrow> Inl e | Inr c1 \<Rightarrow>
                case col_index header ''Invoiced'' of Inl e \<Rightarrow> Inl e | Inr c2 \<Rightarrow>
                case col_index header ''Est. Final Cost'' of Inl e \<Rightarrow> Inl e | Inr c3 \<Rightarrow>
                case col_index header ''Amended Value'' of Inl e \<Rightarrow> Inl e | Inr c4 \<Rightarrow>
                case col_index header ''Margin'' of Inl e \<Rightarrow> Inl e | Inr c5 \<Rightarrow>
                  Inr (set_cell (set_cell (set_cell (set_cell (set_cell row
                         c1 (CNum (m_total_costs metrics)))
                         c2 (CNum (m_total_invoiced metrics)))
                         c3 (CNum (m_total_costs metrics + m_pending_invoices metrics)))
                         c4 (CNum (m_amended_value metrics)))
                         c5 (CNum (m_projected_margin metrics))))))"

fun process_template_rows :: "database \<Rightarrow> cell_value list \<Rightarrow> grid \<Rightarrow> pyerror + grid" where
  "process_template_rows db header [] = Inr []"
| "process_template_rows db header (row # rest) =
     (case process_template_row db header row of
        Inl e \<Rightarrow> Inl e
      | Inr row' \<Rightarrow>
          (case process_template_rows db header rest of
             Inl e \<Rightarrow> Inl e
           | Inr rest' \<Rightarrow> Inr (row' # rest')))"

record cvr_result =
  result_file :: string
  result_path :: string

text \<open>
  \<^verbatim>\<open>process_all_jobs_cvr(db, template_path)\<close>; \<open>stamp\<close> is the UTC time formatted with
  \<^verbatim>\<open>%Y%m%d_%H%M%S\<close>. No exception is caught: a raise leaves the directories as they were.
\<close>

definition process_all_jobs_cvr ::
  "database \<Rightarrow> string option \<Rightarrow> string \<Rightarrow> cvr_files \<Rightarrow> pyerror + cvr_files \<times> cvr_result" where
  "process_all_jobs_cvr db template_path stamp files =
     (case (case template_path of
              Some pth \<Rightarrow> if pth \<noteq> [] then Inr pth
                          else (case sort (map fst (templates files)) of
                                  [] \<Rightarrow> Inl (FileNotFoundError ''No CVR template found'')
                                | f # fs \<Rightarrow> Inr (last (f # fs)))
            | None \<Rightarrow> (case sort (map fst (templates files)) of
                         [] \<Rightarrow> Inl (FileNotFoundError ''No CVR template found'')
                       | f # fs \<Rightarrow> Inr (last (f # fs)))) of
        Inl e \<Rightarrow> Inl e
      | Inr pth \<Rightarrow>
          (case map_of (templates files) pth of
             None \<Rightarrow> Inl (FileNotFoundError pth)
           | Some sheet \<Rightarrow>
               (case process_template_rows db (case sheet of [] \<Rightarrow> [] | h # _ \<Rightarrow> h) (tl sheet) of
                  Inl e \<Rightarrow> Inl e
                | Inr rows' \<Rightarrow>
                    (let out_name = ''cvr_processed_'' @ stamp @ ''.xlsx'';
                         out_path = ''CVR_Processed/'' @ out_name
                     in Inr (files\<lparr>processed := dict_set out_path (take 1 sheet @ rows') (processed files)\<rparr>,
                             \<lparr>result_file = out_name, result_path = out_path\<rparr>)))))"

definition ex_template_header :: "cell_value list" where
  "ex_template_header = [CStr ''Job Code'', CStr ''Cost to Date'', CStr ''Invoiced'',
                         CStr ''Est. Final Cost'', CStr ''Amended Value'', CStr ''Margin'']"

definition ex_cvr_files :: cvr_files where
  "ex_cvr_files = \<lparr>
     templates =
       [(''CVR_Templates/cvr_2025.xlsx'',
           [ex_template_header, [CStr ''NDA-001'', CNum 0, CNum 0, CStr ''=B2+100'', CNum 0, CNum 0]]),
        (''CVR_Templates/cvr_2024.xlsx'', [ex_template_header])],
     processed = [] \<rparr>"

section \<open>The invoice parser (backend/utils/parse\_invoice.py)\<close>

text \<open>
  The columns \<^verbatim>\<open>InvoiceParser.__init__\<close> declares. \<open>required_columns\<close> is read nowhere
  else in the class.
\<close>

definition required_columns :: "string list" where
  "required_columns = [''Type'', ''Date'', ''Num'', ''Name'', ''Class'', ''Amount'', ''Balance'']"

definition optional_columns :: "string list" where
  "optional_columns = [''A/R Paid'', ''Status'', ''Terms'', ''Due Date'', ''Aging'']"

text \<open>
  The sheet as pandas reads it: a cell is a number, a string, a date (a day number) or
  NaN/NaT. The library conversions are parameters of the model, bundled in a record:
  \<^verbatim>\<open>pd.to_datetime(errors='coerce')\<close>, \<^verbatim>\<open>pd.to_numeric(errors='coerce')\<close>, \<^verbatim>\<open>str\<close> of a
  cell, \<^verbatim>\<open>strftime('%Y-%m-%d')\<close>, and today's day number.
\<close>

datatype inv_cell = INum real | IStr string | IDate int | INaN

record invoice_frame =
  if_columns :: "string list"
  if_rows :: "inv_cell list list"

record pandas_env =
  to_datetime :: "inv_cell \<Rightarrow> int option"
  to_numeric :: "inv_cell \<Rightarrow> real option"
  str_of_cell :: "inv_cell \<Rightarrow> string"
  strftime :: "int \<Rightarrow> string"
  today :: int

text \<open>Applying a function to every cell of the columns with a given label.\<close>

definition map_column :: "string \<Rightarrow> (inv_cell \<Rightarrow> inv_cell) \<Rightarrow> invoice_frame \<Rightarrow> invoice_frame" where
  "map_column col f df =
     df\<lparr>if_rows := map (\<lambda>row. map (\<lambda>(c, v). if c = col then f v else v) (zip (if_columns df) row))
                       (if_rows df)\<rparr>"

definition fill_na :: "inv_cell \<Rightarrow> inv_cell \<Rightarrow> inv_cell" where
  "fill_na dflt v = (if v = INaN then dflt else v)"

text \<open>
  \<^verbatim>\<open>_clean_dataframe\<close>. Every step that names a column is guarded by the column's
  presence (\<^verbatim>\<open>if col in df.columns\<close>), and \<^verbatim>\<open>fillna\<close> with a dictionary skips the keys
  that are no column: a missing column is never an error here.
\<close>

definition clean_dataframe :: "pandas_env \<Rightarrow> invoice_frame \<Rightarrow> invoice_frame" where
  "clean_dataframe env df0 =
     (let df1 = df0\<lparr>if_rows := filter (\<lambda>row. \<not> list_all (\<lambda>v. v = INaN) row) (if_rows df0)\<rparr>;
          df2 = df1\<lparr>if_columns := map strip (if_columns df1)\<rparr>;
          df3 = fold (\<lambda>col. map_column col
                        (\<lambda>v. case to_datetime env v of None \<Rightarrow> INaN | Some d \<Rightarrow> IDate d))
                  [''Date'', ''Due Date''] df2;
          df4 = fold (\<lambda>col. map_column col
                        (\<lambda>v. case to_numeric env v of None \<Rightarrow> INaN | Some x \<Rightarrow> INum x))
                  [''Amount'', ''Balance'', ''A/R Paid''] df3;
          df5 = fold (\<lambda>(col, dflt). map_column col (fill_na dflt))
                  [(''Class'', IStr ''UNASSIGNED''), (''Name'', IStr ''UNKNOWN''),
                   (''Amount'', INum 0), (''Balance'', INum 0), (''A/R Paid'', INum 0)] df4
      in map_column ''Class'' (\<lambda>v. IStr (upper (strip (str_of_cell env v)))) df5)"

record invoice_info =
  ii_invoice_number :: string
  ii_date :: "string option"
  ii_client_name :: string
  ii_amount :: real
  ii_balance :: real
  ii_paid_amount :: real
  ii_status :: string
  ii_due_date :: "string option"
  ii_aging_days :: int

record invoice_job =
  ij_job_code :: string
  ij_total_invoiced :: real
  ij_total_paid :: real
  ij_outstanding_balance :: real
  ij_paid_invoices_count :: nat
  ij_unpaid_invoices_count :: nat
  ij_invoices :: "invoice_info list"
  ij_payment_rate :: real

text \<open>\<^verbatim>\<open>row.get(col)\<close>, which is None for a column the sheet does not have.\<close>

definition irow_get :: "string list \<Rightarrow> inv_cell list \<Rightarrow> string \<Rightarrow> inv_cell option" where
  "irow_get cols row col = map_of (zip cols row) col"

text \<open>
  The number in a cell of a cleaned amount column; after \<^verbatim>\<open>to_numeric\<close> and \<^verbatim>\<open>fillna\<close>
  these columns hold numbers only.
\<close>

definition num_of :: "inv_cell \<Rightarrow> real" where
  "num_of v = (case v of INum x \<Rightarrow> x | _ \<Rightarrow> 0)"

text \<open>\<^verbatim>\<open>job_df[col].sum()\<close>: KeyError for a column the sheet does not have.\<close>

definition column_sum :: "string list \<Rightarrow> inv_cell list list \<Rightarrow> string \<Rightarrow> pyerror + real" where
  "column_sum cols rows col =
     (if col \<in> set cols
      then Inr (sum_list (map (\<lambda>row. num_of (get_or (irow_get cols row col) (INum 0))) rows))
      else Inl (KeyError (quoted col)))"

definition date_text :: "pandas_env \<Rightarrow> inv_cell option \<Rightarrow> string option" where
  "date_text env v = (case v of Some (IDate d) \<Rightarrow> Some (strftime env d) | _ \<Rightarrow> None)"

definition invoice_row_info :: "pandas_env \<Rightarrow> string list \<Rightarrow> inv_cell list \<Rightarrow> invoice_info" where
  "invoice_row_info env cols row =
     \<lparr>ii_invoice_number = str_of_cell env (get_or (irow_get cols row ''Num'') (IStr [])),
      ii_date = date_text env (irow_get cols row ''Date''),
      ii_client_name = str_of_cell env (get_or (irow_get cols row ''Name'') (IStr [])),
      ii_amount = num_of (get_or (irow_get cols row ''Amount'') (INum 0)),
      ii_balance = num_of (get_or (irow_get cols row ''Balance'') (INum 0)),
      ii_paid_amount = num_of (get_or (irow_get cols row ''A/R Paid'') (INum 0)),
      ii_status = (if num_of (get_or (irow_get cols row ''Balance'') (INum 0)) \<le> 0
                   then ''PAID'' else ''UNPAID''),
      ii_due_date = date_text env (irow_get cols row ''Due Date''),
      ii_aging_days = (case irow_get cols row ''Due Date'' of
                         Some (IDate d) \<Rightarrow> today env - d | _ \<Rightarrow> 0)\<rparr>"

text \<open>The body of the loop over the groups, for one job code and its rows.\<close>

definition process_invoice_group ::
  "pandas_env \<Rightarrow> string list \<Rightarrow> string \<Rightarrow> inv_cell list list \<Rightarrow> pyerror + invoice_job" where
  "process_invoice_group env cols code rows =
     (case column_sum cols rows ''Amount'' of
        Inl e \<Rightarrow> Inl e
      | Inr invoiced_sum \<Rightarrow>
          (let paid_sum = (case column_sum cols rows ''A/R Paid'' of Inl _ \<Rightarrow> 0 | Inr t \<Rightarrow> t) in
           case column_sum cols rows ''Balance'' of
             Inl e \<Rightarrow> Inl e
           | Inr outstanding \<Rightarrow>
               Inr \<lparr>ij_job_code = code,
                    ij_total_invoiced = invoiced_sum,
                    ij_total_paid = paid_sum,
                    ij_outstanding_balance = outstanding,
                    ij_paid_invoices_count =
                      length (filter (\<lambda>row. num_of (get_or (irow_get cols row ''Balance'') (INum 0)) \<le> 0) rows),
                    ij_unpaid_invoices_count =
                      length (filter (\<lambda>row. num_of (get_or (irow_get cols row ''Balance'') (INum 0)) > 0) rows),
                    ij_invoices = map (invoice_row_info env cols) rows,
                    ij_payment_rate =
                      (if invoiced_sum > 0 then paid_sum / invoiced_sum * 100 else 0)\<rparr>))"

fun process_invoice_groups ::
  "pandas_env \<Rightarrow> string list \<Rightarrow> inv_cell list list \<Rightarrow> string list
     \<Rightarrow> pyerror + (string \<times> invoice_job) list" where
  "process_invoice_groups env cols rows [] = Inr []"
| "process_invoice_groups env cols rows (code # rest) =
     (if code = ''UNASSIGNED'' then process_invoice_groups env cols rows rest
      else
        (case process_invoice_group env cols code
                (filter (\<lambda>row. irow_get cols row ''Class'' = Some (IStr code)) rows) of
           Inl e \<Rightarrow> Inl e
         | Inr job \<Rightarrow>
             (case process_invoice_groups env cols rows rest of
                Inl e \<Rightarrow> Inl e
              | Inr others \<Rightarrow> Inr ((code, job) # others))))"

text \<open>
  \<^verbatim>\<open>_process_invoice_data\<close>: \<^verbatim>\<open>df.groupby('Class')\<close> raises KeyError without the column
  and yields the groups in the sorted order of their keys.
\<close>

definition process_invoice_data :: "pandas_env \<Rightarrow> invoice_frame \<Rightarrow> pyerror + (string \<times> invoice_job) list" where
  "process_invoice_data env df =
     (if ''Class'' \<in> set (if_columns df)
      then process_invoice_groups env (if_columns df) (if_rows df)
             (sort (remdups (concat (map (\<lambda>row.
                 case irow_get (if_columns df) row ''Class'' of Some (IStr s) \<Rightarrow> [s] | _ \<Rightarrow> [])
               (if_rows df)))))
      else Inl (KeyError (quoted ''Class'')))"

text \<open>
  The totals of \<^verbatim>\<open>_generate_summary\<close>. Its two advisory lists (the job performance table
  and the alerts) are computed from the job entries without a step that can raise, and are
  left out.
\<close>

record invoice_summary =
  s_total_invoiced :: real
  s_total_paid :: real
  s_total_outstanding :: real
  s_overall_payment_rate :: real
  s_paid_invoices_count :: nat
  s_unpaid_invoices_count :: nat
  s_total_jobs :: nat

definition generate_summary :: "(string \<times> invoice_job) list \<Rightarrow> invoice_summary" where
  "generate_summary invoice_data =
     (let invoiced_sum = sum_list (map (ij_total_invoiced \<circ> snd) invoice_data);
          paid_sum = sum_list (map (ij_total_paid \<circ> snd) invoice_data)
      in \<lparr>s_total_invoiced = invoiced_sum,
          s_total_paid = paid_sum,
          s_total_outstanding = sum_list (map (ij_outstanding_balance \<circ> snd) invoice_data),
          s_overall_payment_rate =
            (if invoiced_sum > 0 then paid_sum / invoiced_sum * 100 else 0),
          s_paid_invoices_count = sum_list (map (ij_paid_invoices_count \<circ> snd) invoice_data),
          s_unpaid_invoices_count = sum_list (map (ij_unpaid_invoices_count \<circ> snd) invoice_data),
          s_total_jobs = length invoice_data\<rparr>)"

datatype parse_result =
    ParseFailed string
  | Parsed "(string \<times> invoice_job) list" invoice_summary

text \<open>
  \<^verbatim>\<open>parse_invoice_file\<close> on the sheet read from the file: any exception becomes the
  failure dictionary with \<^verbatim>\<open>str(e)\<close> and empty data.
\<close>

definition parse_invoice_file :: "pandas_env \<Rightarrow> invoice_frame \<Rightarrow> parse_result" where
  "parse_invoice_file env df0 =
     (case process_invoice_data env (clean_dataframe env df0) of
        Inl e \<Rightarrow> ParseFailed (str_of_error e)
      | Inr invoice_data \<Rightarrow> Parsed invoice_data (generate_summary invoice_data))"

subsection \<open>Example sheets\<close>

definition ex_env :: pandas_env where
  "ex_env = \<lparr>
     to_datetime = (\<lambda>v. case v of IDate d \<Rightarrow> Some d | _ \<Rightarrow> None),
     to_numeric = (\<lambda>v. case v of INum x \<Rightarrow> Some x | _ \<Rightarrow> None),
     str_of_cell = (\<lambda>v. case v of IStr s \<Rightarrow> s | INum x \<Rightarrow> ex_fmt x | IDate d \<Rightarrow> string_of_int d
                         | INaN \<Rightarrow> ''nan''),
     strftime = string_of_int,
     today = 20000 \<rparr>"

text \<open>A sheet with only three of the seven declared columns, and one without Class.\<close>

definition ex_invoice_sheet :: invoice_frame where
  "ex_invoice_sheet = \<lparr>if_columns = [''Class'', ''Amount'', ''Balance''],
                        if_rows = [[IStr ''nda-001'', INum 500, INum 250],
                                   [IStr ''nda-001'', INum 100, INum 0]]\<rparr>"

definition ex_invoice_sheet_no_class :: invoice_frame where
  "ex_invoice_sheet_no_class =
     \<lparr>if_columns = [''Type'', ''Date'', ''Num'', ''Name'', ''Amount'', ''Balance''],
      if_rows = [[IStr ''Invoice'', IDate 19990, IStr ''INV-1'', IStr ''SGN'', INum 500, INum 250]]\<rparr>"

section \<open>Properties of the CVR ledger updater\<close>

lemma update_cell_frame:
  "fst (update_cell rules sheet k v) a = sheet a \<or>
   (snd (update_cell rules sheet k v) \<and> cell_mappings rules k = Some a \<and>
    fst (update_cell rules sheet k v) a = CNum v \<and>
    \<not> (get_default_true (preserve_formulas rules) \<and> is_formula (sheet a)) \<and>
    \<not> (get_default_true (only_positive_values rules) \<and> v < 0))"
  by (auto simp: update_cell_def split: option.splits)

lemma update_cell_keeps_formula:
  "get_default_true (preserve_formulas rules) \<Longrightarrow> is_formula (sheet a) \<Longrightarrow>
   fst (update_cell rules sheet k v) a = sheet a"
  using update_cell_frame[of rules sheet k v a] by auto

lemma apply_update_fst:
  "fst (apply_update rules fmt st k l v) = fst (update_cell rules (fst st) k v)"
  by (simp add: apply_update_def split: prod.splits)

lemma apply_update_keeps_formula:
  "get_default_true (preserve_formulas rules) \<Longrightarrow> is_formula (fst st a) \<Longrightarrow>
   fst (apply_update rules fmt st k l v) a = fst st a"
  by (simp add: apply_update_fst update_cell_keeps_formula)

lemma map_of_store_sheet:
  "map_of (store_sheet n s wb) m = (if m = n then (case map_of wb n of None \<Rightarrow> None | Some _ \<Rightarrow> Some s) else map_of wb m)"
  by (induction wb) (auto simp: store_sheet_def)

lemma set_title_Inr: "set_title t = Inr t' \<Longrightarrow> t' = t"
  by (auto simp: set_title_def split: list.splits)

lemma set_title_Inl:
  "set_title t = Inl e \<Longrightarrow> \<exists>c \<in> set t. c \<in> set invalid_title_chars"
  by (auto simp: set_title_def filter_eq_Cons_iff split: list.splits)

lemma get_or_create_has_sheet:
  "get_or_create_job_sheet wb jc = Inr (wb1, sheet) \<Longrightarrow> map_of wb1 (job_sheet_name jc) = Some sheet"
  by (auto simp: get_or_create_job_sheet_def Let_def map_add_def dest: set_title_Inr
      split: option.splits sum.splits)

lemma get_or_create_existing:
  "map_of wb (job_sheet_name jc) = Some sheet \<Longrightarrow> get_or_create_job_sheet wb jc = Inr (wb, sheet)"
  by (simp add: get_or_create_job_sheet_def)

lemma get_or_create_raises:
  "get_or_create_job_sheet wb jc = Inl e \<Longrightarrow>
   map_of wb (job_sheet_name jc) = None \<and> (\<exists>c \<in> set (job_sheet_name jc). c \<in> set invalid_title_chars)"
  by (auto simp: get_or_create_job_sheet_def Let_def dest: set_title_Inl split: option.splits sum.splits)


lemma update_margin_keeps_formula:
  "get_default_true (preserve_formulas rules) \<Longrightarrow> is_formula (fst st a) \<Longrightarrow>
   update_margin rules fmt st = Inr st' \<Longrightarrow> fst st' a = fst st a"
  by (auto simp: update_margin_def Let_def apply_update_keeps_formula split: cell_value.splits if_splits)

lemma pnl_formula:
  assumes pf: "get_default_true (preserve_formulas rules)"
      and r: "update_cvr_with_pnl rules fmt stamp isotime wb pnl_data jc = (wb', r)"
  shows "if success r
         then (\<exists>wb1 sheet0 sheet'. get_or_create_job_sheet wb jc = Inr (wb1, sheet0) \<and>
                 job_sheet wb' jc = Some sheet' \<and>
                 (\<forall>a. a \<noteq> ''A1'' \<and> is_formula (sheet0 a) \<longrightarrow> sheet' a = sheet0 a))
         else wb' = wb"
proof (cases "get_or_create_job_sheet wb jc")
  case (Inl e)
  with r show ?thesis by (auto simp: update_cvr_with_pnl_def success_def)
next
  case (Inr p)
  obtain wb1 sheet where p: "p = (wb1, sheet)" by (cases p) auto
  note gc0 = Inr[unfolded p]
  note gc = get_or_create_has_sheet[OF gc0]
  show ?thesis
  proof (cases "pnl_data jc")
    case None
    with r gc0 show ?thesis by (auto simp: update_cvr_with_pnl_def success_def)
  next
    case (Some jd)
    with r gc0 pf gc show ?thesis
      by (auto simp: update_cvr_with_pnl_def success_def Let_def job_sheet_def map_of_store_sheet
            apply_update_keeps_formula)
  qed
qed


lemma apply_updates_Nil [simp]: "apply_updates rules fmt st [] = st"
  by (simp add: apply_updates_def)

lemma apply_updates_Cons [simp]:
  "apply_updates rules fmt st ((k, l, v) # fs) = apply_updates rules fmt (apply_update rules fmt st k l v) fs"
  by (simp add: apply_updates_def)










lemma invoice_formula:
  assumes pf: "get_default_true (preserve_formulas rules)"
      and r: "update_cvr_with_invoice rules fmt fmt1 stamp isotime wb invoice_data jc = (wb', r)"
  shows "if success r
         then (\<exists>wb1 sheet0 sheet'. get_or_create_job_sheet wb jc = Inr (wb1, sheet0) \<and>
                 job_sheet wb' jc = Some sheet' \<and>
                 (\<forall>a. a \<notin> set [''A1'', ''E1'', ''E2'', ''F2'', ''E3'', ''F3'', ''E4'', ''F4''] \<and>
                      is_formula (sheet0 a) \<longrightarrow> sheet' a = sheet0 a))
         else wb' = wb"
proof (cases "get_or_create_job_sheet wb jc")
  case (Inl e)
  with r show ?thesis by (auto simp: update_cvr_with_invoice_def success_def)
next
  case (Inr p)
  obtain wb1 sheet where p: "p = (wb1, sheet)" by (cases p) auto
  note gc0 = Inr[unfolded p]
  note gc = get_or_create_has_sheet[OF gc0]
  show ?thesis
  proof (cases "invoice_data jc")
    case None
    with r gc0 show ?thesis by (auto simp: update_cvr_with_invoice_def success_def)
  next
    case (Some jd)
    let ?st1 = "apply_update rules fmt (sheet, []) ''total_invoiced'' ''Total invoiced'' (get_or (total_invoiced jd) 0)"
    show ?thesis
    proof (cases "update_margin rules fmt ?st1")
      case (Inl e)
      with r gc0 Some show ?thesis by (auto simp: update_cvr_with_invoice_def success_def Let_def)
    next
      case st2: (Inr st2)
      have keep: "fst st2 a = sheet a" if "is_formula (sheet a)" for a
      proof -
        have 1: "fst ?st1 a = sheet a" using apply_update_keeps_formula[OF pf, of "(sheet, [])" a] that by simp
        with that have "is_formula (fst ?st1 a)" by simp
        from update_margin_keeps_formula[OF pf this st2] 1 show ?thesis by simp
      qed
      from r gc0 Some st2 have wb': "wb' = store_sheet (job_sheet_name jc)
              ((fst st2)(''E1'' := CStr ''Payment Tracking'', ''E2'' := CStr ''Total Paid'',
                 ''F2'' := CNum (get_or (total_paid jd) 0), ''E3'' := CStr ''Outstanding Balance'',
                 ''F3'' := CNum (get_or (outstanding_balance jd) 0), ''E4'' := CStr ''Payment Rate'',
                 ''F4'' := CStr (fmt1 (get_or (payment_rate jd) 0) @ ''%''),
                 ''A1'' := CStr (''Last updated: '' @ stamp))) wb1"
        and rr: "r = Updated (snd st2) jc isotime"
        by (simp_all add: update_cvr_with_invoice_def Let_def)
      have s: "success r" by (simp add: rr success_def)
      show ?thesis
        using s keep gc
        by (simp add: gc0 wb' job_sheet_def map_of_store_sheet)
    qed
  qed
qed

text \<open>
  Claim C1, as the code has it. While the \<open>preserve_formulas\<close> rule is active (set, or
  absent from the rules, which defaults to active), \<^verbatim>\<open>_update_cell\<close> never writes to a
  cell whose value is a string starting with \<open>=\<close>. After a successful
  \<^verbatim>\<open>update_cvr_with_pnl\<close> every such cell of the job's sheet other than the timestamp cell
  A1 holds its old value, after a successful \<^verbatim>\<open>update_cvr_with_invoice\<close> every such cell
  other than A1 and the payment block E1, E2, F2, E3, F3, E4, F4 does, and a failed call
  leaves the workbook file as it was. The old values are those of the sheet that
  \<^verbatim>\<open>_get_or_create_job_sheet\<close> handed to the call.
\<close>

theorem formula_cells_preserved_when_rule_active:
  assumes "get_default_true (preserve_formulas rules)"
  shows "(is_formula (sheet a) \<longrightarrow> fst (update_cell rules sheet k v) a = sheet a) \<and>
         (\<forall>wb' r. update_cvr_with_pnl rules fmt stamp isotime wb pnl_data jc = (wb', r) \<longrightarrow>
            (if success r
             then (\<exists>wb1 sheet0 sheet'. get_or_create_job_sheet wb jc = Inr (wb1, sheet0) \<and>
                     job_sheet wb' jc = Some sheet' \<and>
                     (\<forall>a. a \<noteq> ''A1'' \<and> is_formula (sheet0 a) \<longrightarrow> sheet' a = sheet0 a))
             else wb' = wb)) \<and>
         (\<forall>wb' r. update_cvr_with_invoice rules fmt fmt1 stamp isotime wb invoice_data jc = (wb', r) \<longrightarrow>
            (if success r
             then (\<exists>wb1 sheet0 sheet'. get_or_create_job_sheet wb jc = Inr (wb1, sheet0) \<and>
                     job_sheet wb' jc = Some sheet' \<and>
                     (\<forall>a. a \<notin> set [''A1'', ''E1'', ''E2'', ''F2'', ''E3'', ''F3'', ''E4'', ''F4''] \<and>
                          is_formula (sheet0 a) \<longrightarrow> sheet' a = sheet0 a))
             else wb' = wb))"
proof (intro conjI allI impI)
  show "fst (update_cell rules sheet k v) a = sheet a" if "is_formula (sheet a)"
    using update_cell_keeps_formula[of rules sheet a k v] assms that by simp
next
  fix wb' r
  assume "update_cvr_with_pnl rules fmt stamp isotime wb pnl_data jc = (wb', r)"
  then show "if success r
             then (\<exists>wb1 sheet0 sheet'. get_or_create_job_sheet wb jc = Inr (wb1, sheet0) \<and>
                     job_sheet wb' jc = Some sheet' \<and>
                     (\<forall>a. a \<noteq> ''A1'' \<and> is_formula (sheet0 a) \<longrightarrow> sheet' a = sheet0 a))
             else wb' = wb"
    by (rule pnl_formula[OF assms])
next
  fix wb' r
  assume "update_cvr_with_invoice rules fmt fmt1 stamp isotime wb invoice_data jc = (wb', r)"
  then show "if success r
             then (\<exists>wb1 sheet0 sheet'. get_or_create_job_sheet wb jc = Inr (wb1, sheet0) \<and>
                     job_sheet wb' jc = Some sheet' \<and>
                     (\<forall>a. a \<notin> set [''A1'', ''E1'', ''E2'', ''F2'', ''E3'', ''F3'', ''E4'', ''F4''] \<and>
                          is_formula (sheet0 a) \<longrightarrow> sheet' a = sheet0 a))
             else wb' = wb"
    by (rule invoice_formula[OF assms])
qed

text \<open>
  Claim C1 as stated fails at two inputs. With \<open>preserve_formulas\<close> switched off in the
  rules, \<^verbatim>\<open>_update_cell\<close> replaces the formula in C5 by the number; and under the default
  rules \<^verbatim>\<open>update_cvr_with_pnl\<close> replaces a formula in A1 by the timestamp.
\<close>

theorem formula_cell_overwritten_counterexample:
  "is_formula (ex_sheet ''C5'') \<and> is_formula (ex_sheet ''A1'') \<and>
   fst (update_cell (default_rules\<lparr>preserve_formulas := Some False\<rparr>) ex_sheet ''total_costs'' 100) ''C5''
     = CNum 100 \<and>
   (case update_cvr_with_pnl default_rules ex_fmt ''2025-01-01 00:00:00'' ''2025-01-01T00:00:00''
           ex_workbook ex_pnl ''J1'' of
      (wb', r) \<Rightarrow> success r \<and>
        (case job_sheet wb' ''J1'' of None \<Rightarrow> False
         | Some sheet' \<Rightarrow> sheet' ''A1'' = CStr ''Last updated: 2025-01-01 00:00:00''))"
  by code_simp

text \<open>
  The theorem at the default rules: the formula in C5 of the example sheet survives both
  updates.
\<close>

theorem formula_cells_preserved_witness:
  "get_default_true (preserve_formulas default_rules) \<and>
   is_formula (ex_sheet ''C5'') \<and>
   fst (update_cell default_rules ex_sheet ''total_costs'' 100) ''C5'' = ex_sheet ''C5'' \<and>
   (\<exists>wb' r sheet'.
      update_cvr_with_pnl default_rules ex_fmt ''t'' ''i'' ex_workbook ex_pnl ''J1'' = (wb', r) \<and>
      success r \<and> job_sheet wb' ''J1'' = Some sheet' \<and> sheet' ''C5'' = CStr ''=SUM(A1:A5)'') \<and>
   (\<exists>wb' r sheet'.
      update_cvr_with_invoice default_rules ex_fmt ex_fmt1 ''t'' ''i'' ex_workbook ex_invoices ''J1'' = (wb', r) \<and>
      success r \<and> job_sheet wb' ''J1'' = Some sheet' \<and> sheet' ''C5'' = CStr ''=SUM(A1:A5)'')"
proof -
  have h: "get_default_true (preserve_formulas default_rules)" by code_simp
  have f: "is_formula (ex_sheet ''C5'')" by code_simp
  have gc: "get_or_create_job_sheet ex_workbook ''J1'' = Inr (ex_workbook, ex_sheet)"
    by (simp add: get_or_create_job_sheet_def ex_workbook_def job_sheet_name_def)
  have s0: "ex_sheet ''C5'' = CStr ''=SUM(A1:A5)''" by (simp add: ex_sheet_def)
  have ne: "''C5'' \<noteq> ''A1''"
    "''C5'' \<notin> set [''A1'', ''E1'', ''E2'', ''F2'', ''E3'', ''F3'', ''E4'', ''F4'']" by simp_all
  note main = formula_cells_preserved_when_rule_active[OF h, of ex_sheet "''C5''" "''total_costs''" 100
      ex_fmt "''t''" "''i''" ex_workbook ex_pnl "''J1''" ex_fmt1 ex_invoices]
  obtain wb1 r1 where p: "update_cvr_with_pnl default_rules ex_fmt ''t'' ''i'' ex_workbook ex_pnl ''J1'' = (wb1, r1)"
    by (cases "update_cvr_with_pnl default_rules ex_fmt ''t'' ''i'' ex_workbook ex_pnl ''J1''") auto
  have "success (snd (update_cvr_with_pnl default_rules ex_fmt ''t'' ''i'' ex_workbook ex_pnl ''J1''))"
    by code_simp
  then have sp: "success r1" by (simp add: p)
  obtain wb2 r2 where q: "update_cvr_with_invoice default_rules ex_fmt ex_fmt1 ''t'' ''i'' ex_workbook ex_invoices ''J1'' = (wb2, r2)"
    by (cases "update_cvr_with_invoice default_rules ex_fmt ex_fmt1 ''t'' ''i'' ex_workbook ex_invoices ''J1''") auto
  have "success (snd (update_cvr_with_invoice default_rules ex_fmt ex_fmt1 ''t'' ''i'' ex_workbook ex_invoices ''J1''))"
    by code_simp
  then have sq: "success r2" by (simp add: q)
  from main f have a: "fst (update_cell default_rules ex_sheet ''total_costs'' 100) ''C5'' = ex_sheet ''C5''" by blast
  from main have "if success r1
      then (\<exists>wb1' sheet0 sheet'. get_or_create_job_sheet ex_workbook ''J1'' = Inr (wb1', sheet0) \<and>
              job_sheet wb1 ''J1'' = Some sheet' \<and>
              (\<forall>a. a \<noteq> ''A1'' \<and> is_formula (sheet0 a) \<longrightarrow> sheet' a = sheet0 a))
      else wb1 = ex_workbook"
    using p by blast
  with sp gc obtain sheet1 where b: "job_sheet wb1 ''J1'' = Some sheet1"
      "\<forall>a. a \<noteq> ''A1'' \<and> is_formula (ex_sheet a) \<longrightarrow> sheet1 a = ex_sheet a"
    by auto
  from b(2) f s0 ne(1) have b3: "sheet1 ''C5'' = CStr ''=SUM(A1:A5)''" by metis
  from main have "if success r2
      then (\<exists>wb1' sheet0 sheet'. get_or_create_job_sheet ex_workbook ''J1'' = Inr (wb1', sheet0) \<and>
              job_sheet wb2 ''J1'' = Some sheet' \<and>
              (\<forall>a. a \<notin> set [''A1'', ''E1'', ''E2'', ''F2'', ''E3'', ''F3'', ''E4'', ''F4''] \<and>
                   is_formula (sheet0 a) \<longrightarrow> sheet' a = sheet0 a))
      else wb2 = ex_workbook"
    using q by blast
  with sq gc obtain sheet2 where c: "job_sheet wb2 ''J1'' = Some sheet2"
      "\<forall>a. a \<notin> set [''A1'', ''E1'', ''E2'', ''F2'', ''E3'', ''F3'', ''E4'', ''F4''] \<and>
           is_formula (ex_sheet a) \<longrightarrow> sheet2 a = ex_sheet a"
    by auto
  from c(2) f s0 ne(2) have c3: "sheet2 ''C5'' = CStr ''=SUM(A1:A5)''" by metis
  from h f a p sp b(1) b3 q sq c(1) c3 show ?thesis by blast
qed






text \<open>
  A job code that openpyxl refuses as part of a sheet title: the job has no sheet yet, the
  title setter raises, and the call reports the failure and saves nothing. With a sheet of
  that title already in the workbook the title is never set and the call goes through.
\<close>

lemma update_fails_on_invalid_title:
  "get_or_create_job_sheet ex_workbook ''A/B'' = Inl (ValueError ''Invalid character / found in sheet title'') \<and>
   update_cvr_with_pnl default_rules ex_fmt ''t'' ''i'' ex_workbook (ex_pnl(''A/B'' := ex_pnl ''J1'')) ''A/B''
     = (ex_workbook, Failed ''Invalid character / found in sheet title'')"
  by (simp add: get_or_create_job_sheet_def update_cvr_with_pnl_def ex_workbook_def job_sheet_name_def
      set_title_def invalid_title_chars_def str_of_error_def)

text \<open>
  Claim C2 as stated fails when the rejected field's address is written by something else
  in the same call. With the labour field mapped to the material field's cell C6, a labour
  aggregate of -60 is rejected and has no line, but C6 goes from empty to the material
  aggregate 40; with the labour field mapped to A1, the cell receives the timestamp.
\<close>

theorem rejected_field_cell_changed_counterexample:
  "get_default_true (only_positive_values ex_shared_rules) \<and>
   cell_mappings ex_shared_rules ''labour_costs'' = Some ''C6'' \<and>
   cell_mappings ex_stamp_rules ''labour_costs'' = Some ''A1'' \<and>
   calculate_category_cost ex_shared_rules [(''Materials - cable'', 40), (''Wages'', - 60)] ''labour'' = - 60 \<and>
   (case job_sheet ex_workbook ''J1'' of None \<Rightarrow> False
    | Some sheet0 \<Rightarrow> sheet0 ''C6'' = CNone \<and> sheet0 ''A1'' = CStr ''=TODAY()'') \<and>
   (case update_cvr_with_pnl ex_shared_rules ex_fmt ''t'' ''i'' ex_workbook ex_pnl ''J1'' of
      (wb', r) \<Rightarrow> success r \<and> list_all (\<lambda>u. \<not> prefix ''Labour costs: '' u) (updates r) \<and>
        (case job_sheet wb' ''J1'' of None \<Rightarrow> False | Some sheet' \<Rightarrow> sheet' ''C6'' = CNum 40)) \<and>
   (case update_cvr_with_pnl ex_stamp_rules ex_fmt ''t'' ''i'' ex_workbook ex_pnl ''J1'' of
      (wb', r) \<Rightarrow> success r \<and> list_all (\<lambda>u. \<not> prefix ''Labour costs: '' u) (updates r) \<and>
        (case job_sheet wb' ''J1'' of None \<Rightarrow> False
         | Some sheet' \<Rightarrow> sheet' ''A1'' = CStr ''Last updated: t''))"
  by code_simp


text \<open>
  Claim C10. Whenever \<^verbatim>\<open>update_cvr_with_invoice\<close> succeeds, the job's sheet in the saved
  workbook holds the payment-tracking block in E1, E2, F2, E3, F3, E4, F4 and the timestamp
  in A1, whatever these cells held before (formulas included), whatever the rule
  configuration says and whatever the list of updated fields is (it may be empty): the
  writes pass through neither the formula check nor the positivity check.
\<close>

theorem payment_block_overwritten_unconditionally:
  assumes r: "update_cvr_with_invoice rules fmt fmt1 stamp isotime wb invoice_data jc = (wb', r)"
      and s: "success r"
  shows "\<exists>jd sheet'. invoice_data jc = Some jd \<and> job_sheet wb' jc = Some sheet' \<and>
           sheet' ''E1'' = CStr ''Payment Tracking'' \<and>
           sheet' ''E2'' = CStr ''Total Paid'' \<and>
           sheet' ''F2'' = CNum (get_or (total_paid jd) 0) \<and>
           sheet' ''E3'' = CStr ''Outstanding Balance'' \<and>
           sheet' ''F3'' = CNum (get_or (outstanding_balance jd) 0) \<and>
           sheet' ''E4'' = CStr ''Payment Rate'' \<and>
           sheet' ''F4'' = CStr (fmt1 (get_or (payment_rate jd) 0) @ ''%'') \<and>
           sheet' ''A1'' = CStr (''Last updated: '' @ stamp)"
proof -
  from r s obtain wb1 sheet where gc: "get_or_create_job_sheet wb jc = Inr (wb1, sheet)"
    by (cases "get_or_create_job_sheet wb jc") (auto simp: update_cvr_with_invoice_def success_def)
  note has = get_or_create_has_sheet[OF gc]
  from r s gc obtain jd where jd: "invoice_data jc = Some jd"
    by (cases "invoice_data jc") (auto simp: update_cvr_with_invoice_def success_def)
  let ?st1 = "apply_update rules fmt (sheet, []) ''total_invoiced'' ''Total invoiced'' (get_or (total_invoiced jd) 0)"
  from r s gc jd obtain st2 where m: "update_margin rules fmt ?st1 = Inr st2"
    by (cases "update_margin rules fmt ?st1") (auto simp: update_cvr_with_invoice_def success_def Let_def)
  from r gc jd m have wb': "wb' = store_sheet (job_sheet_name jc)
              ((fst st2)(''E1'' := CStr ''Payment Tracking'', ''E2'' := CStr ''Total Paid'',
                 ''F2'' := CNum (get_or (total_paid jd) 0), ''E3'' := CStr ''Outstanding Balance'',
                 ''F3'' := CNum (get_or (outstanding_balance jd) 0), ''E4'' := CStr ''Payment Rate'',
                 ''F4'' := CStr (fmt1 (get_or (payment_rate jd) 0) @ ''%''),
                 ''A1'' := CStr (''Last updated: '' @ stamp))) wb1"
    by (simp add: update_cvr_with_invoice_def Let_def)
  show ?thesis
    using jd has by (simp add: wb' job_sheet_def map_of_store_sheet)
qed


text \<open>
  The theorem on a sheet whose E1, F2 and A1 hold formulas, with an empty rule
  configuration: no mapped field is updated, and the block is written all the same.
\<close>

theorem payment_block_overwritten_witness:
  "is_formula (ex_sheet ''E1'') \<and> is_formula (ex_sheet ''F2'') \<and> is_formula (ex_sheet ''A1'') \<and>
   (\<exists>wb' r sheet'.
      update_cvr_with_invoice initial_rules ex_fmt ex_fmt1 ''t'' ''i'' ex_workbook ex_invoices ''J1'' = (wb', r) \<and>
      success r \<and> updates r = [] \<and> job_sheet wb' ''J1'' = Some sheet' \<and>
      sheet' ''E1'' = CStr ''Payment Tracking'' \<and> sheet' ''F2'' = CNum 70 \<and>
      sheet' ''F4'' = CStr ''70.0%'' \<and> sheet' ''A1'' = CStr ''Last updated: t'')"
proof -
  obtain wb' r where p: "update_cvr_with_invoice initial_rules ex_fmt ex_fmt1 ''t'' ''i'' ex_workbook ex_invoices ''J1'' = (wb', r)"
    by (cases "update_cvr_with_invoice initial_rules ex_fmt ex_fmt1 ''t'' ''i'' ex_workbook ex_invoices ''J1''") auto
  have "success (snd (update_cvr_with_invoice initial_rules ex_fmt ex_fmt1 ''t'' ''i'' ex_workbook ex_invoices ''J1''))"
    by code_simp
  then have s: "success r" by (simp add: p)
  have "updates (snd (update_cvr_with_invoice initial_rules ex_fmt ex_fmt1 ''t'' ''i'' ex_workbook ex_invoices ''J1'')) = []"
    by code_simp
  then have u: "updates r = []" by (simp add: p)
  have jd: "ex_invoices ''J1'' = Some \<lparr>total_invoiced = Some (- 5), total_paid = Some 70,
                              outstanding_balance = Some 30, payment_rate = Some 70\<rparr>"
    by (simp add: ex_invoices_def)
  have f: "ex_fmt1 70 = ''70.0''" by code_simp
  from payment_block_overwritten_unconditionally[OF p s] jd f
  obtain sheet' where "job_sheet wb' ''J1'' = Some sheet'"
      "sheet' ''E1'' = CStr ''Payment Tracking''" "sheet' ''F2'' = CNum 70"
      "sheet' ''F4'' = CStr ''70.0%''" "sheet' ''A1'' = CStr ''Last updated: t''"
    by (auto simp: get_or_def)
  moreover have "is_formula (ex_sheet ''E1'')" "is_formula (ex_sheet ''F2'')" "is_formula (ex_sheet ''A1'')"
    by code_simp+
  ultimately show ?thesis using p s u by blast
qed

section \<open>Properties of the alert de-duplication (backend/crud.py)\<close>

lemma loop_alerts_append:
  "budget_alerts_loop fmt2 fmt1 jid os (db, cr) = (db', cr') \<Longrightarrow>
   \<exists>new. alerts db' = alerts db @ new \<and> cr' = cr @ new \<and>
         db' = db\<lparr>alerts := alerts db @ new\<rparr>"
proof (induction os arbitrary: db cr)
  case Nil
  then show ?case by simp
next
  case (Cons ov os)
  show ?case
  proof (cases "existing_alerts db jid ''budget_overrun'' (o_category ov) = []")
    case True
    let ?a = "snd (create_alert db jid ''budget_overrun'' (budget_alert_message fmt2 fmt1 ov) (budget_alert_severity ov))"
    let ?db1 = "db\<lparr>alerts := alerts db @ [?a]\<rparr>"
    from Cons.prems True have "budget_alerts_loop fmt2 fmt1 jid os (?db1, cr @ [?a]) = (db', cr')"
      by (simp add: create_alert_def Let_def)
    from Cons.IH[OF this] obtain new where "alerts db' = alerts ?db1 @ new" "cr' = (cr @ [?a]) @ new"
      "db' = ?db1\<lparr>alerts := alerts ?db1 @ new\<rparr>" by blast
    then show ?thesis by (intro exI[of _ "?a # new"]) simp
  next
    case False
    with Cons show ?thesis by simp
  qed
qed


lemma actual_spend_alerts [simp]: "actual_spend (db\<lparr>alerts := x\<rparr>) jid cat = actual_spend db jid cat"
  by (simp add: actual_spend_def)

lemma overruns_loop_alerts [simp]: "overruns_loop (db\<lparr>alerts := x\<rparr>) jid bs = overruns_loop db jid bs"
  by (induction bs) (simp_all add: Let_def)

lemma check_budget_overruns_alerts [simp]:
  "check_budget_overruns (db\<lparr>alerts := x\<rparr>) jid = check_budget_overruns db jid"
  by (simp add: check_budget_overruns_def get_budgets_by_job_def)

lemma existing_alerts_append:
  "existing_alerts (db\<lparr>alerts := alerts db @ new\<rparr>) jid atype subj =
   existing_alerts db jid atype subj @
   filter (\<lambda>a. alert_job_id a = jid \<and> alert_type a = atype \<and> sublist subj (message a) \<and>
               is_acknowledged a = False) new"
  by (simp add: existing_alerts_def)

lemma category_in_budget_message: "sublist (o_category ov) (budget_alert_message fmt2 fmt1 ov)"
  unfolding budget_alert_message_def by (rule sublist_appendI)

lemma existing_after_create:
  "existing_alerts (fst (create_alert db jid ''budget_overrun'' (budget_alert_message fmt2 fmt1 ov) sev))
      jid ''budget_overrun'' (o_category ov) \<noteq> []"
  by (simp add: create_alert_def Let_def existing_alerts_def category_in_budget_message)

lemma loop_covers:
  "budget_alerts_loop fmt2 fmt1 jid os (db, cr) = (db', cr') \<Longrightarrow> ov \<in> set os \<Longrightarrow>
   existing_alerts db' jid ''budget_overrun'' (o_category ov) \<noteq> []"
proof (induction os arbitrary: db cr)
  case Nil
  then show ?case by simp
next
  case (Cons o1 os)
  let ?c = "create_alert db jid ''budget_overrun'' (budget_alert_message fmt2 fmt1 o1) (budget_alert_severity o1)"
  define db1 where "db1 = (if existing_alerts db jid ''budget_overrun'' (o_category o1) = [] then fst ?c else db)"
  define cr1 where "cr1 = (if existing_alerts db jid ''budget_overrun'' (o_category o1) = [] then cr @ [snd ?c] else cr)"
  from Cons.prems(1) have run: "budget_alerts_loop fmt2 fmt1 jid os (db1, cr1) = (db', cr')"
    by (auto simp: db1_def cr1_def split: prod.splits if_splits)
  have head: "existing_alerts db1 jid ''budget_overrun'' (o_category o1) \<noteq> []"
    using existing_after_create[of db jid fmt2 fmt1 o1 "budget_alert_severity o1"] by (simp add: db1_def)
  from loop_alerts_append[OF run] obtain new where new: "db' = db1\<lparr>alerts := alerts db1 @ new\<rparr>" by blast
  show ?case
  proof (cases "ov = o1")
    case True
    with head show ?thesis by (simp add: new existing_alerts_append)
  next
    case False
    with Cons.prems(2) have "ov \<in> set os" by simp
    from Cons.IH[OF run this] show ?thesis .
  qed
qed

lemma loop_all_existing:
  "\<forall>ov \<in> set os. existing_alerts db jid ''budget_overrun'' (o_category ov) \<noteq> [] \<Longrightarrow>
   budget_alerts_loop fmt2 fmt1 jid os (db, cr) = (db, cr)"
  by (induction os) simp_all

lemma second_call_creates_nothing:
  assumes "check_and_create_budget_alerts fmt2 fmt1 db jid = Inr (db1, created1)"
  shows "check_and_create_budget_alerts fmt2 fmt1 db1 jid = Inr (db1, [])"
proof -
  from assms obtain os where os: "check_budget_overruns db jid = Inr os"
    and run: "budget_alerts_loop fmt2 fmt1 jid os (db, []) = (db1, created1)"
    by (auto simp: check_and_create_budget_alerts_def split: sum.splits)
  from loop_alerts_append[OF run] obtain new where "db1 = db\<lparr>alerts := alerts db @ new\<rparr>" by blast
  then have os1: "check_budget_overruns db1 jid = Inr os" using os by simp
  have "\<forall>ov \<in> set os. existing_alerts db1 jid ''budget_overrun'' (o_category ov) \<noteq> []"
    using loop_covers[OF run] by blast
  from loop_all_existing[OF this] show ?thesis
    by (simp add: check_and_create_budget_alerts_def os1)
qed


lemma sublist_skip_foreign:
  assumes "w \<noteq> []" "hd w \<notin> set n"
  shows "sublist w (n @ zs) = sublist w zs"
  using assms
proof (induction n)
  case Nil
  then show ?case by simp
next
  case (Cons a n)
  from Cons.prems obtain h t where w: "w = h # t" by (cases w) auto
  from Cons.prems w have "h \<noteq> a" by auto
  then have "\<not> prefix w (a # n @ zs)" by (simp add: w)
  moreover from Cons have "sublist w (n @ zs) = sublist w zs" by simp
  ultimately show ?case by (simp add: sublist_Cons_right)
qed

lemma category_value_head:
  "ExpenseCategory_value c \<noteq> [] \<and> hd (ExpenseCategory_value c) \<in> set ''mlpos''"
  by (cases c) simp_all

lemma numeric_no_category_head:
  "numeric_string n \<Longrightarrow> hd (ExpenseCategory_value c) \<notin> set n"
  using category_value_head[of c] by (auto simp: numeric_string_def)

lemma budget_message_names_one_category:
  assumes "numeric_string a" "numeric_string b"
  shows "sublist (ExpenseCategory_value c')
           (''Budget overrun in '' @ ExpenseCategory_value c @ '': '' @ pound @ a @
            '' over budget ('' @ b @ ''%)'') \<longleftrightarrow> c' = c"
proof -
  have ga: "sublist (ExpenseCategory_value c') (a @ zs) = sublist (ExpenseCategory_value c') zs" for zs
    using sublist_skip_foreign[OF _ numeric_no_category_head[OF assms(1)]] category_value_head by blast
  have gb: "sublist (ExpenseCategory_value c') (b @ zs) = sublist (ExpenseCategory_value c') zs" for zs
    using sublist_skip_foreign[OF _ numeric_no_category_head[OF assms(2)]] category_value_head by blast
  have tail: "\<not> sublist (ExpenseCategory_value c') ('': '' @ pound @ a @ '' over budget ('' @ b @ ''%)'')"
    using ga[of "'' over budget ('' @ b @ ''%)''"] gb[of "''%)''"]
    by (cases c') (simp_all add: sublist_Cons_right pound_def)
  show ?thesis
    using tail
    by (cases c; cases c') (simp_all add: sublist_Cons_right)
qed


lemma value_inj: "ExpenseCategory_value c = ExpenseCategory_value c' \<longleftrightarrow> c = c'"
  by (cases c; cases c') simp_all

lemma live_after_create:
  assumes "numeric_string (fmt2 (o_overrun ov))" "numeric_string (fmt1 (o_percentage_over ov))"
      and "o_category ov = ExpenseCategory_value c0"
  shows "live_budget_alerts (fst (create_alert db jid ''budget_overrun'' (budget_alert_message fmt2 fmt1 ov) sev)) jid c =
         live_budget_alerts db jid c @
           (if c = c0 then [snd (create_alert db jid ''budget_overrun'' (budget_alert_message fmt2 fmt1 ov) sev)] else [])"
  using budget_message_names_one_category[OF assms(1,2), of c c0]
  by (simp add: live_budget_alerts_def existing_alerts_def create_alert_def Let_def
        budget_alert_message_def assms(3))

lemma loop_count:
  assumes "\<And>x. numeric_string (fmt2 x)" "\<And>x. numeric_string (fmt1 x)"
  shows "budget_alerts_loop fmt2 fmt1 jid os (db, cr) = (db', cr') \<Longrightarrow>
         \<forall>ov \<in> set os. \<exists>c. o_category ov = ExpenseCategory_value c \<Longrightarrow>
         length (live_budget_alerts db' jid c) =
           (if live_budget_alerts db jid c = [] \<and> (\<exists>ov \<in> set os. o_category ov = ExpenseCategory_value c)
            then 1 else length (live_budget_alerts db jid c))"
proof (induction os arbitrary: db cr)
  case Nil
  then show ?case by simp
next
  case (Cons o1 os)
  from Cons.prems(2) obtain c0 where c0: "o_category o1 = ExpenseCategory_value c0" by auto
  from Cons.prems(2) have rest: "\<forall>ov \<in> set os. \<exists>c. o_category ov = ExpenseCategory_value c" by simp
  have ex: "(\<exists>ov \<in> set (o1 # os). o_category ov = ExpenseCategory_value c) \<longleftrightarrow>
            c = c0 \<or> (\<exists>ov \<in> set os. o_category ov = ExpenseCategory_value c)"
    by (auto simp: c0 value_inj)
  show ?case
  proof (cases "existing_alerts db jid ''budget_overrun'' (o_category o1) = []")
    case False
    with Cons.prems(1) have run: "budget_alerts_loop fmt2 fmt1 jid os (db, cr) = (db', cr')" by simp
    from False have l0: "live_budget_alerts db jid c0 \<noteq> []" by (simp add: live_budget_alerts_def c0)
    from Cons.IH[OF run rest] l0 show ?thesis unfolding ex by auto
  next
    case True
    let ?c = "create_alert db jid ''budget_overrun'' (budget_alert_message fmt2 fmt1 o1) (budget_alert_severity o1)"
    from True Cons.prems(1) have run: "budget_alerts_loop fmt2 fmt1 jid os (fst ?c, cr @ [snd ?c]) = (db', cr')"
      by (simp split: prod.splits)
    from True have l0: "live_budget_alerts db jid c0 = []" by (simp add: live_budget_alerts_def c0)
    note la = live_after_create[OF assms(1) assms(2) c0, where db=db and jid=jid
        and sev="budget_alert_severity o1" and c=c]
    from Cons.IH[OF run rest] la l0 show ?thesis unfolding ex by auto
  qed
qed

lemma overruns_loop_categories:
  "overruns_loop db jid bs = Inr os \<Longrightarrow> \<forall>ov \<in> set os. \<exists>c. o_category ov = ExpenseCategory_value c"
proof (induction bs arbitrary: os)
  case Nil
  then show ?case by simp
next
  case (Cons b bs)
  show ?case
  proof (cases "overruns_loop db jid bs")
    case (Inl e)
    with Cons.prems show ?thesis by (auto simp: Let_def split: if_splits)
  next
    case (Inr os')
    from Cons.IH[OF Inr] have ih: "\<forall>ov \<in> set os'. \<exists>c. o_category ov = ExpenseCategory_value c" .
    from Cons.prems Inr have "os = os' \<or> (\<exists>ov. os = ov # os' \<and>
        o_category ov = ExpenseCategory_value (budget_category b))"
      by (auto simp: Let_def split: if_splits)
    with ih show ?thesis by auto
  qed
qed

lemma digit_char_digit: "k < 10 \<Longrightarrow> digit_char k \<in> set ''0123456789''"
proof -
  assume "k < 10"
  then have k: "k \<in> set [0, 1, 2, 3, 4, 5, 6, 7, 8, 9]"
    by (simp del: digit_char.simps) arith
  have "list_all (\<lambda>k. digit_char k \<in> set ''0123456789'') [0, 1, 2, 3, 4, 5, 6, 7, 8, 9]"
    by code_simp
  with k show ?thesis unfolding list_all_iff by blast
qed

lemma string_of_nat_digits: "set (string_of_nat n) \<subseteq> set ''0123456789''"
proof (induction n rule: string_of_nat.induct)
  case (1 n)
  show ?case
  proof (cases "n < 10")
    case True
    with digit_char_digit[of n] show ?thesis by (subst string_of_nat.simps) (simp del: digit_char.simps)
  next
    case False
    have "n mod 10 < 10" by simp
    from digit_char_digit[OF this] 1[OF False] False show ?thesis
      by (subst string_of_nat.simps) (simp del: digit_char.simps)
  qed
qed

lemma digits_sub: "set ''0123456789'' \<subseteq> set ''0123456789.-''"
  by code_simp
lemma signed_decimal_numeric:
  assumes "set n \<subseteq> set ''0123456789''"
  shows "numeric_string ((if b then ''-'' else []) @ n @ ''.00'')"
proof -
  have 1: "set n \<subseteq> set ''0123456789.-''" using assms digits_sub by (rule subset_trans)
  have 2: "set (if b then ''-'' else []) \<subseteq> set ''0123456789.-''" by (cases b) simp_all
  have 3: "set ''.00'' \<subseteq> set ''0123456789.-''" by code_simp
  show ?thesis unfolding numeric_string_def set_append using 1 2 3 by (intro Un_least)
qed

lemma ex_fmt_numeric: "numeric_string (ex_fmt x)"
  unfolding ex_fmt_def by (rule signed_decimal_numeric[OF string_of_nat_digits])

text \<open>
  The overrun check returns exactly when no budget row of the job has a budget of 0 with a
  positive spend; otherwise its unguarded division raises.
\<close>

lemma check_budget_overruns_returns:
  "(\<exists>os. overruns_loop db jid bs = Inr os) \<longleftrightarrow>
   list_all (\<lambda>b. \<not> (actual_spend db jid (budget_category b) > budgeted_amount b \<and> budgeted_amount b = 0)) bs"
  by (induction bs) (auto simp: Let_def split: sum.splits)

text \<open>
  Claim C3. Let a first call of \<^verbatim>\<open>check_and_create_budget_alerts\<close> for a job return. A
  second call straight after it, with no alert acknowledged in between, creates no alert
  and leaves the store as it is. A candidate is skipped exactly when the de-duplication
  query finds a live alert naming its category, so for every category the number of live
  budget alerts naming it after the calls is 1 if there was none before and the category
  is overrun, and is unchanged otherwise: one alert per overrun category, not two. (The
  count is stated for formatters that produce digits, \<open>.\<close> and \<open>-\<close> only, as Python's
  do.)
\<close>

theorem budget_alert_dedup_idempotent:
  assumes first: "check_and_create_budget_alerts fmt2 fmt1 db jid = Inr (db1, created1)"
  shows "check_and_create_budget_alerts fmt2 fmt1 db1 jid = Inr (db1, []) \<and>
         alerts db1 = alerts db @ created1 \<and>
         ((\<forall>x. numeric_string (fmt2 x)) \<and> (\<forall>x. numeric_string (fmt1 x)) \<longrightarrow>
           (\<forall>overruns c. check_budget_overruns db jid = Inr overruns \<longrightarrow>
              length (live_budget_alerts db1 jid c) =
                (if live_budget_alerts db jid c = [] \<and>
                    (\<exists>ov \<in> set overruns. o_category ov = ExpenseCategory_value c)
                 then 1 else length (live_budget_alerts db jid c))))"
proof (intro conjI impI allI)
  show "check_and_create_budget_alerts fmt2 fmt1 db1 jid = Inr (db1, [])"
    by (rule second_call_creates_nothing[OF first])
next
  from first obtain os where run: "budget_alerts_loop fmt2 fmt1 jid os (db, []) = (db1, created1)"
    by (auto simp: check_and_create_budget_alerts_def split: sum.splits)
  from loop_alerts_append[OF run] show "alerts db1 = alerts db @ created1" by auto
next
  fix overruns c
  assume num: "(\<forall>x. numeric_string (fmt2 x)) \<and> (\<forall>x. numeric_string (fmt1 x))"
    and os: "check_budget_overruns db jid = Inr overruns"
  from first os have run: "budget_alerts_loop fmt2 fmt1 jid overruns (db, []) = (db1, created1)"
    by (simp add: check_and_create_budget_alerts_def)
  from os have cats: "\<forall>ov \<in> set overruns. \<exists>c. o_category ov = ExpenseCategory_value c"
    unfolding check_budget_overruns_def by (rule overruns_loop_categories)
  from num have n2: "\<And>x. numeric_string (fmt2 x)" and n1: "\<And>x. numeric_string (fmt1 x)" by auto
  show "length (live_budget_alerts db1 jid c) =
                (if live_budget_alerts db jid c = [] \<and>
                    (\<exists>ov \<in> set overruns. o_category ov = ExpenseCategory_value c)
                 then 1 else length (live_budget_alerts db jid c))"
    by (rule loop_count[OF n2 n1 run cats])
qed

text \<open>
  The theorem on the example store: material is overrun (1500 spent of 1000), labour is not.
\<close>

theorem budget_alert_dedup_witness:
  "\<exists>db1 created1.
     check_and_create_budget_alerts ex_fmt ex_fmt ex_db 1 = Inr (db1, created1) \<and>
     length created1 = 1 \<and>
     check_and_create_budget_alerts ex_fmt ex_fmt db1 1 = Inr (db1, []) \<and>
     length (live_budget_alerts db1 1 material) = 1 \<and>
     length (live_budget_alerts db1 1 labour) = 0"
proof -
  have "case check_and_create_budget_alerts ex_fmt ex_fmt ex_db 1 of
          Inr (d, c) \<Rightarrow> length c = 1 | Inl e \<Rightarrow> False"
    by code_simp
  then obtain db1 created1 where
    first: "check_and_create_budget_alerts ex_fmt ex_fmt ex_db 1 = Inr (db1, created1)"
    and len: "length created1 = 1"
    by (auto split: sum.splits)
  have ov: "check_budget_overruns ex_db 1 =
     Inr [\<lparr>o_category = ''material'', o_budgeted = 1000, o_actual = 1500, o_overrun = 500,
           o_percentage_over = 50\<rparr>]"
    by code_simp
  have l0: "live_budget_alerts ex_db 1 material = []" "live_budget_alerts ex_db 1 labour = []"
    by code_simp+
  have num: "(\<forall>x. numeric_string (ex_fmt x)) \<and> (\<forall>x. numeric_string (ex_fmt x))"
    by (simp add: ex_fmt_numeric)
  note main = budget_alert_dedup_idempotent[OF first]
  from main have second: "check_and_create_budget_alerts ex_fmt ex_fmt db1 1 = Inr (db1, [])" by blast
  from main num ov have cnt: "\<And>c. length (live_budget_alerts db1 1 c) =
       (if live_budget_alerts ex_db 1 c = [] \<and>
           (\<exists>ov \<in> set [\<lparr>o_category = ''material'', o_budgeted = 1000, o_actual = 1500, o_overrun = 500,
           o_percentage_over = 50\<rparr>]. o_category ov = ExpenseCategory_value c)
        then 1 else length (live_budget_alerts ex_db 1 c))"
    by blast
  have m: "length (live_budget_alerts db1 1 material) = 1" using cnt[of material] l0 by simp
  have l: "length (live_budget_alerts db1 1 labour) = 0" using cnt[of labour] l0 by simp
  from first len second m l show ?thesis by blast
qed

lemma budget_loop_created:
  "budget_alerts_loop fmt2 fmt1 jid os (db, cr) = (db', cr') \<Longrightarrow> a \<in> set cr' \<Longrightarrow>
   a \<in> set cr \<or>
   (\<exists>ov \<in> set os. alert_job_id a = jid \<and> alert_type a = ''budget_overrun'' \<and>
       message a = budget_alert_message fmt2 fmt1 ov \<and> severity a = budget_alert_severity ov \<and>
       is_acknowledged a = False)"
proof (induction os arbitrary: db cr)
  case Nil
  then show ?case by simp
next
  case (Cons o1 os)
  show ?case
  proof (cases "existing_alerts db jid ''budget_overrun'' (o_category o1) = []")
    case False
    with Cons.prems have "budget_alerts_loop fmt2 fmt1 jid os (db, cr) = (db', cr')" by simp
    from Cons.IH[OF this Cons.prems(2)] show ?thesis by auto
  next
    case True
    let ?c = "create_alert db jid ''budget_overrun'' (budget_alert_message fmt2 fmt1 o1) (budget_alert_severity o1)"
    from True Cons.prems(1) have "budget_alerts_loop fmt2 fmt1 jid os (fst ?c, cr @ [snd ?c]) = (db', cr')"
      by (simp split: prod.splits)
    from Cons.IH[OF this Cons.prems(2)] show ?thesis
      by (auto simp: create_alert_def Let_def)
  qed
qed

lemma overruns_loop_sound:
  "overruns_loop db jid bs = Inr os \<Longrightarrow> ov \<in> set os \<Longrightarrow>
   \<exists>b \<in> set bs. actual_spend db jid (budget_category b) > budgeted_amount b \<and>
      o_category ov = ExpenseCategory_value (budget_category b) \<and>
      o_percentage_over ov =
        ((actual_spend db jid (budget_category b) - budgeted_amount b) / budgeted_amount b) * 100"
proof (induction bs arbitrary: os)
  case Nil
  then show ?case by simp
next
  case (Cons b bs)
  show ?case
  proof (cases "overruns_loop db jid bs")
    case (Inl e)
    with Cons.prems show ?thesis by (auto simp: Let_def split: if_splits)
  next
    case (Inr os')
    let ?new = "\<lparr>o_category = ExpenseCategory_value (budget_category b),
                       o_budgeted = budgeted_amount b,
                       o_actual = actual_spend db jid (budget_category b),
                       o_overrun = actual_spend db jid (budget_category b) - budgeted_amount b,
                       o_percentage_over =
                         ((actual_spend db jid (budget_category b) - budgeted_amount b) / budgeted_amount b) * 100\<rparr>"
    from Cons.prems(1) Inr have "os = os' \<or>
        (os = ?new # os' \<and> actual_spend db jid (budget_category b) > budgeted_amount b)"
      by (auto simp: Let_def split: if_splits)
    then show ?thesis
    proof
      assume "os = os'"
      with Cons.IH[OF Inr] Cons.prems(2) show ?thesis by auto
    next
      assume h: "os = ?new # os' \<and> actual_spend db jid (budget_category b) > budgeted_amount b"
      show ?thesis
      proof (cases "ov = ?new")
        case True
        with h show ?thesis by simp
      next
        case False
        with h Cons.prems(2) have "ov \<in> set os'" by auto
        from Cons.IH[OF Inr this] show ?thesis by auto
      qed
    qed
  qed
qed

lemma invoice_loop_alerts_append:
  "invoice_alerts_loop fmt2 now is (db, cr) = (db', cr') \<Longrightarrow>
   \<exists>new. alerts db' = alerts db @ new \<and> cr' = cr @ new"
proof (induction "is" arbitrary: db cr)
  case Nil
  then show ?case by simp
next
  case (Cons i1 "is")
  show ?case
  proof (cases "existing_alerts db (invoice_job_id i1) ''overdue_invoice'' (invoice_number i1) = []")
    case True
    let ?c = "create_alert db (invoice_job_id i1) ''overdue_invoice''
                (invoice_alert_message fmt2 now i1) (invoice_alert_severity now i1)"
    from Cons.prems True have "invoice_alerts_loop fmt2 now is (fst ?c, cr @ [snd ?c]) = (db', cr')"
      by (simp split: prod.splits)
    from Cons.IH[OF this] obtain new where "alerts db' = alerts (fst ?c) @ new" "cr' = (cr @ [snd ?c]) @ new"
      by blast
    then show ?thesis by (intro exI[of _ "snd ?c # new"]) (simp add: create_alert_def Let_def)
  next
    case False
    with Cons show ?thesis by simp
  qed
qed

lemma invoice_loop_created:
  "invoice_alerts_loop fmt2 now is (db, cr) = (db', cr') \<Longrightarrow> a \<in> set cr' \<Longrightarrow>
   a \<in> set cr \<or>
   (\<exists>i \<in> set is. alert_job_id a = invoice_job_id i \<and> alert_type a = ''overdue_invoice'' \<and>
       message a = invoice_alert_message fmt2 now i \<and> severity a = invoice_alert_severity now i \<and>
       is_acknowledged a = False)"
proof (induction "is" arbitrary: db cr)
  case Nil
  then show ?case by simp
next
  case (Cons i1 "is")
  show ?case
  proof (cases "existing_alerts db (invoice_job_id i1) ''overdue_invoice'' (invoice_number i1) = []")
    case False
    with Cons.prems have "invoice_alerts_loop fmt2 now is (db, cr) = (db', cr')" by simp
    from Cons.IH[OF this Cons.prems(2)] show ?thesis by auto
  next
    case True
    let ?c = "create_alert db (invoice_job_id i1) ''overdue_invoice''
                (invoice_alert_message fmt2 now i1) (invoice_alert_severity now i1)"
    from True Cons.prems(1) have "invoice_alerts_loop fmt2 now is (fst ?c, cr @ [snd ?c]) = (db', cr')"
      by (simp split: prod.splits)
    from Cons.IH[OF this Cons.prems(2)] show ?thesis
      by (auto simp: create_alert_def Let_def)
  qed
qed


text \<open>
  Claim C5. The alerts a call persists are exactly the ones it returns. Every budget alert
  \<^verbatim>\<open>check_and_create_budget_alerts\<close> persists comes from an overrun budget row of the job,
  and its severity is \<open>high\<close> if that row's percent over budget,
  \<open>(actual - budgeted) / budgeted * 100\<close>, exceeds 20 and \<open>medium\<close> otherwise. Every alert
  \<^verbatim>\<open>check_and_create_invoice_alerts\<close> persists comes from an overdue invoice, and its
  severity is \<open>high\<close> if the invoice's whole days overdue exceed 30 and \<open>medium\<close>
  otherwise.
\<close>

theorem persisted_alert_severity:
  "(\<forall>db' created. check_and_create_budget_alerts fmt2 fmt1 db jid = Inr (db', created) \<longrightarrow>
      alerts db' = alerts db @ created \<and>
      (\<forall>a \<in> set created.
         alert_type a = ''budget_overrun'' \<and> alert_job_id a = jid \<and>
         (\<exists>b \<in> set (get_budgets_by_job db jid).
            actual_spend db jid (budget_category b) > budgeted_amount b \<and>
            sublist (ExpenseCategory_value (budget_category b)) (message a) \<and>
            severity a =
              (if ((actual_spend db jid (budget_category b) - budgeted_amount b) / budgeted_amount b) * 100 > 20
               then ''high'' else ''medium'')))) \<and>
   (\<forall>db' created. check_and_create_invoice_alerts fmt2 now db j = (db', created) \<longrightarrow>
      alerts db' = alerts db @ created \<and>
      (\<forall>a \<in> set created.
         alert_type a = ''overdue_invoice'' \<and>
         (\<exists>i \<in> set (get_overdue_invoices now db j).
            alert_job_id a = invoice_job_id i \<and>
            message a = invoice_alert_message fmt2 now i \<and>
            severity a = (if days_overdue now i > 30 then ''high'' else ''medium''))))"
proof (intro conjI allI impI ballI)
  fix db' created
  assume r: "check_and_create_budget_alerts fmt2 fmt1 db jid = Inr (db', created)"
  then obtain os where os: "overruns_loop db jid (get_budgets_by_job db jid) = Inr os"
    and run: "budget_alerts_loop fmt2 fmt1 jid os (db, []) = (db', created)"
    by (auto simp: check_and_create_budget_alerts_def check_budget_overruns_def split: sum.splits)
  from loop_alerts_append[OF run] show "alerts db' = alerts db @ created" by auto
  fix a
  assume a: "a \<in> set created"
  from budget_loop_created[OF run a] obtain ov where ov: "ov \<in> set os"
    "alert_job_id a = jid" "alert_type a = ''budget_overrun''"
    "message a = budget_alert_message fmt2 fmt1 ov" "severity a = budget_alert_severity ov"
    by auto
  from ov show "alert_type a = ''budget_overrun''" "alert_job_id a = jid" by auto
  from overruns_loop_sound[OF os ov(1)] obtain b where b: "b \<in> set (get_budgets_by_job db jid)"
    "actual_spend db jid (budget_category b) > budgeted_amount b"
    "o_category ov = ExpenseCategory_value (budget_category b)"
    "o_percentage_over ov =
        ((actual_spend db jid (budget_category b) - budgeted_amount b) / budgeted_amount b) * 100"
    by blast
  have "sublist (ExpenseCategory_value (budget_category b)) (message a)"
    using category_in_budget_message[of ov fmt2 fmt1] by (simp add: ov(4) b(3))
  with b ov(5) show "\<exists>b \<in> set (get_budgets_by_job db jid).
            actual_spend db jid (budget_category b) > budgeted_amount b \<and>
            sublist (ExpenseCategory_value (budget_category b)) (message a) \<and>
            severity a =
              (if ((actual_spend db jid (budget_category b) - budgeted_amount b) / budgeted_amount b) * 100 > 20
               then ''high'' else ''medium'')"
    by (auto simp: budget_alert_severity_def)
next
  fix db' created
  assume r: "check_and_create_invoice_alerts fmt2 now db j = (db', created)"
  then have run: "invoice_alerts_loop fmt2 now (get_overdue_invoices now db j) (db, []) = (db', created)"
    by (simp add: check_and_create_invoice_alerts_def)
  from invoice_loop_alerts_append[OF run] show "alerts db' = alerts db @ created" by auto
  fix a
  assume a: "a \<in> set created"
  from invoice_loop_created[OF run a] obtain i where i: "i \<in> set (get_overdue_invoices now db j)"
    "alert_job_id a = invoice_job_id i" "alert_type a = ''overdue_invoice''"
    "message a = invoice_alert_message fmt2 now i" "severity a = invoice_alert_severity now i"
    by auto
  from i show "alert_type a = ''overdue_invoice''" by simp
  from i show "\<exists>i \<in> set (get_overdue_invoices now db j).
            alert_job_id a = invoice_job_id i \<and>
            message a = invoice_alert_message fmt2 now i \<and>
            severity a = (if days_overdue now i > 30 then ''high'' else ''medium'')"
    by (auto simp: invoice_alert_severity_def)
qed

text \<open>
  The theorem on the example store: material is 50 percent over budget, invoice INV-7 is 40
  days overdue and INV-8 is a second overdue.
\<close>

theorem persisted_alert_severity_witness:
  "\<exists>db1 a db2 b c.
     check_and_create_budget_alerts ex_fmt ex_fmt ex_db 1 = Inr (db1, [a]) \<and>
     alerts db1 = [a] \<and> alert_type a = ''budget_overrun'' \<and> severity a = ''high'' \<and>
     check_and_create_invoice_alerts ex_fmt (40 * 86400) ex_db None = (db2, [b, c]) \<and>
     alerts db2 = [b, c] \<and> days_overdue (40 * 86400) (hd (invoices ex_db)) = 40 \<and>
     severity b = ''high'' \<and> severity c = ''medium''"
proof -
  have "case check_and_create_budget_alerts ex_fmt ex_fmt ex_db 1 of
          Inr (d, c) \<Rightarrow> length c = 1 \<and> severity (hd c) = ''high'' | Inl e \<Rightarrow> False"
    by code_simp
  then obtain db1 a where
    first: "check_and_create_budget_alerts ex_fmt ex_fmt ex_db 1 = Inr (db1, [a])"
    and sa: "severity a = ''high''"
    by (auto split: sum.splits simp: length_Suc_conv)
  have "case check_and_create_invoice_alerts ex_fmt (40 * 86400) ex_db None of
          (d, c) \<Rightarrow> map severity c = [''high'', ''medium'']"
    by code_simp
  then obtain db2 b c where
    second: "check_and_create_invoice_alerts ex_fmt (40 * 86400) ex_db None = (db2, [b, c])"
    and sb: "severity b = ''high''" "severity c = ''medium''"
    by (cases "check_and_create_invoice_alerts ex_fmt (40 * 86400) ex_db None")
       (auto simp: map_eq_Cons_conv)
  have e: "alerts ex_db = []" by (simp add: ex_db_def)
  have d: "days_overdue (40 * 86400) (hd (invoices ex_db)) = 40" by code_simp
  note main = persisted_alert_severity[of ex_fmt ex_fmt ex_db 1 "40 * 86400" None]
  from main first e have 1: "alerts db1 = [a]" "alert_type a = ''budget_overrun''"
    by auto
  from main second e have 2: "alerts db2 = [b, c]" by auto
  from first 1 sa second 2 d sb show ?thesis by blast
qed

section \<open>Budget evaluation\<close>

lemma Budget_has_no_amount:
  "Budget_getattr b ''amount'' =
     Inl (AttributeError (quoted ''Budget'' @ '' object has no attribute '' @ quoted ''amount''))"
  by (simp add: Budget_getattr_def)

lemma check_budgets_loop_raises:
  "bs \<noteq> [] \<Longrightarrow> check_budgets_loop th code ts totals bs st =
     Inl (AttributeError (quoted ''Budget'' @ '' object has no attribute '' @ quoted ''amount''))"
  by (cases bs; cases st) (simp_all add: Budget_has_no_amount Budget_getattr_def)

lemma check_job_budgets_never_succeeds:
  "\<exists>msg. check_job_budgets th ts db code = CheckFailed msg"
  by (auto simp: check_job_budgets_def Let_def check_budgets_loop_raises split: option.splits)

text \<open>
  Claim C4 on the code. For a job with one budget row (material, budgeted 1000) and 950
  spent, the claim gives the tier \<open>critical\<close>; \<^verbatim>\<open>check_job_budgets\<close> instead fails:
  it reads \<^verbatim>\<open>budget.amount\<close>, the column is \<^verbatim>\<open>budgeted_amount\<close>, and the AttributeError
  is caught by the function's own handler. The lemmas before the theorem show the same
  for every job that has a budget row; the lemmas after it show that
  \<^verbatim>\<open>_get_alert_level\<close> by itself assigns the tiers as the claim states them.
\<close>

theorem budget_evaluation_fails_on_budget_row:
  "check_job_budgets default_thresholds ''2025-01-01T00:00:00'' ex_budget_db ''NDA-001'' =
     CheckFailed (''Error checking budgets: '' @ quoted ''Budget'' @ '' object has no attribute '' @
                  quoted ''amount'')"
  by code_simp

lemma get_alert_level_tiers:
  "get_alert_level default_thresholds p =
     (if p \<ge> 1 then ''exceeded'' else if p \<ge> 0.95 then ''critical''
      else if p \<ge> 0.8 then ''warning'' else ''normal'')"
  by (simp add: get_alert_level_def default_thresholds_def get_or_def)

lemma get_alert_level_examples:
  "get_alert_level default_thresholds (950 / 1000) = ''critical''"
  "get_alert_level default_thresholds (1000 / 1000) = ''exceeded''"
  "get_alert_level default_thresholds (0 / 1000) = ''normal''"
  by (simp_all add: get_alert_level_def default_thresholds_def get_or_def)

section \<open>The P&L parser\<close>

lemma extract_job_code_job: "extract_job_code_from_class ''JOB001-Main Road'' = Some ''JOB001''"
  by code_simp
lemma extract_job_code_sgn: "extract_job_code_from_class ''SGN-2024-001'' = Some ''SGN-2024-001''"
  by code_simp
lemma extract_job_code_generic: "extract_job_code_from_class '' nda-2024-17 works '' = Some ''NDA-2024-17''"
  by code_simp
lemma extract_job_code_fallback: "extract_job_code_from_class ''Main Road'' = Some ''MAIN ROAD''"
  by code_simp

text \<open>
  Claim C6 on the code. The keyword tests run in the stated order on the lower-cased,
  trimmed description, but the members returned are looked up under names the enum does
  not have: \<^verbatim>\<open>ExpenseCategory.labor\<close> for a labour match (the member is \<open>labour\<close>),
  \<^verbatim>\<open>ExpenseCategory.materials\<close> for a material match (the member is \<open>material\<close>), and
  \<^verbatim>\<open>ExpenseCategory.other\<close> as the default (no such member). The classifier raises
  AttributeError there; only a plant match returns a category. The two lemmas after the
  theorem state this for every description with a labour or a material keyword.
\<close>

theorem classifier_raises_for_labour:
  "categorize_expense ''Site labour and wages'' = Inl (AttributeError ''labor'') \<and>
   categorize_expense ''Material and labour'' = Inl (AttributeError ''materials'') \<and>
   categorize_expense ''Office stationery'' = Inl (AttributeError ''other'') \<and>
   categorize_expense ''Excavator hire'' = Inr plant_machinery"
  by code_simp

text \<open>
  Claim C7 on the code. The header \<open>JOB001-Main Road\<close> gives the job code \<open>JOB001\<close>, but
  the row \<open>Materials\<close> with the value -150 yields no line item. When the job is known, the
  classifier raises on \<open>Materials\<close> and the cell is counted as skipped; when it is not,
  \<^verbatim>\<open>create_job_if_not_exists\<close> builds \<^verbatim>\<open>JobCreate\<close> without its required fields
  \<^verbatim>\<open>amended_value\<close> and \<^verbatim>\<open>estimated_final_cost\<close>, the validation error is caught, and the
  cell is dropped without being counted.
\<close>

theorem pnl_example_yields_no_line_item:
  "extract_job_code_from_class ''JOB001-Main Road'' = Some ''JOB001'' \<and>
   categorize_expense ''Materials'' = Inl (AttributeError ''materials'') \<and>
   (case process_pnl_data ex_fmt (\<lambda>s. None) ex_parser_known_job ex_pnl_sheet of
      (p, r) \<Rightarrow> processed_expenses p = [] \<and> processed_count r = 0 \<and> skipped_count r = 1) \<and>
   (case process_pnl_data ex_fmt (\<lambda>s. None) ex_parser_no_jobs ex_pnl_sheet of
      (p, r) \<Rightarrow> processed_expenses p = [] \<and> processed_count r = 0 \<and> skipped_count r = 0)"
  by code_simp


lemma categorize_expense_labour_raises:
  "any_keyword_in labor_keywords (strip (lower d)) \<Longrightarrow>
   \<not> any_keyword_in material_keywords (strip (lower d)) \<Longrightarrow>
   categorize_expense d = Inl (AttributeError ''labor'')"
  by (simp add: categorize_expense_def Let_def ExpenseCategory_getattr_def)

lemma categorize_expense_material_raises:
  "any_keyword_in material_keywords (strip (lower d)) \<Longrightarrow>
   categorize_expense d = Inl (AttributeError ''materials'')"
  by (simp add: categorize_expense_def Let_def ExpenseCategory_getattr_def)

lemma categorize_expense_returns_only_plant:
  "categorize_expense d = Inr c \<Longrightarrow> c = plant_machinery"
  by (auto simp: categorize_expense_def Let_def ExpenseCategory_getattr_def split: if_splits)

text \<open>The part of claim C7 that the code keeps: zero cells and summary rows give nothing.\<close>

lemma process_cell_zero:
  "row_get cols row col (DNum 0) = DNum 0 \<Longrightarrow>
   process_cell parse_float cols row account st (col, code) = st"
  by (cases st) (simp add: process_cell_def)

lemma process_row_skip_word:
  "row_get cols row ''Account'' (DStr []) = DStr name \<Longrightarrow>
   list_ex (\<lambda>w. sublist w (lower (strip name))) skip_words \<Longrightarrow>
   process_row str_num parse_float cols jcols st row = st"
  by (simp add: process_row_def Let_def str_cell_def)

section \<open>The batch reconciliation pass\<close>

lemma call_with_job_code_raises:
  "call_get_job_detail_metrics db [(''job_code'', v)] =
     Inl (TypeError (''got an unexpected keyword argument '' @ quoted ''job_code''))"
  by (simp add: call_get_job_detail_metrics_def bind_keywords_def)

lemma process_template_row_raises:
  "col_index header ''Job Code'' = Inr jc \<Longrightarrow>
   process_template_row db header row =
     Inl (TypeError (''got an unexpected keyword argument '' @ quoted ''job_code''))"
  by (simp add: process_template_row_def call_with_job_code_raises)

lemma process_template_row_never_returns: "process_template_row db header row \<noteq> Inr row'"
  by (cases "col_index header ''Job Code''")
     (simp_all add: process_template_row_def call_with_job_code_raises)

lemma process_template_rows_returns_iff:
  "(\<exists>rows'. process_template_rows db header rows = Inr rows') \<longleftrightarrow> rows = []"
proof (cases rows)
  case Nil
  then show ?thesis by simp
next
  case (Cons r rs)
  then show ?thesis
    using process_template_row_never_returns[of db header r]
    by (cases "process_template_row db header r") auto
qed

text \<open>
  Claim C9 on the code. With no explicit template the pass picks the last file name in
  sorted order, here the 2025 template, whose sheet has one data row. The pass raises
  TypeError at that row and saves nothing: it calls
  \<^verbatim>\<open>get_job_detail_metrics(db, job_code=job_code)\<close>, and the function's parameters are
  \<^verbatim>\<open>db\<close> and \<^verbatim>\<open>job_id\<close>. No column is overwritten for any row of any template
  (\<open>process_template_rows_returns_iff\<close>); only a template without data rows is saved,
  unchanged, under the timestamped name.
\<close>

theorem reconciliation_pass_raises_on_data_row:
  "process_all_jobs_cvr ex_db None ''20250101_000000'' ex_cvr_files =
     Inl (TypeError (''got an unexpected keyword argument '' @ quoted ''job_code'')) \<and>
   last (sort (map fst (templates ex_cvr_files))) = ''CVR_Templates/cvr_2025.xlsx'' \<and>
   process_all_jobs_cvr ex_db (Some ''CVR_Templates/cvr_2024.xlsx'') ''20250101_000000'' ex_cvr_files =
     Inr (ex_cvr_files\<lparr>processed := [(''CVR_Processed/cvr_processed_20250101_000000.xlsx'',
                                        [ex_template_header])]\<rparr>,
          \<lparr>result_file = ''cvr_processed_20250101_000000.xlsx'',
           result_path = ''CVR_Processed/cvr_processed_20250101_000000.xlsx''\<rparr>)"
  by code_simp

section \<open>The invoice parser\<close>

text \<open>
  Claim C8 on the code. A sheet that has only the columns Class, Amount and Balance (Type,
  Date, Num and Name are missing) is parsed with success and a full result: the list of
  required columns is declared in the constructor and never checked. Missing text columns
  default to empty strings and missing dates to None. A sheet without Class fails, through
  the KeyError of \<^verbatim>\<open>groupby\<close>, with the message \<open>'Class'\<close>. The lemma
  \<open>parse_needs_three_columns_only\<close> states the first part for every sheet.
\<close>

theorem missing_required_columns_accepted:
  "list_all (\<lambda>c. c \<notin> set (if_columns ex_invoice_sheet)) [''Type'', ''Date'', ''Num'', ''Name''] \<and>
   parse_invoice_file ex_env ex_invoice_sheet =
     Parsed
       [(''NDA-001'',
         \<lparr>ij_job_code = ''NDA-001'', ij_total_invoiced = 600, ij_total_paid = 0,
          ij_outstanding_balance = 250, ij_paid_invoices_count = 1, ij_unpaid_invoices_count = 1,
          ij_invoices =
            [\<lparr>ii_invoice_number = [], ii_date = None, ii_client_name = [], ii_amount = 500,
              ii_balance = 250, ii_paid_amount = 0, ii_status = ''UNPAID'', ii_due_date = None,
              ii_aging_days = 0\<rparr>,
             \<lparr>ii_invoice_number = [], ii_date = None, ii_client_name = [], ii_amount = 100,
              ii_balance = 0, ii_paid_amount = 0, ii_status = ''PAID'', ii_due_date = None,
              ii_aging_days = 0\<rparr>],
          ij_payment_rate = 0\<rparr>)]
       \<lparr>s_total_invoiced = 600, s_total_paid = 0, s_total_outstanding = 250,
        s_overall_payment_rate = 0, s_paid_invoices_count = 1, s_unpaid_invoices_count = 1,
        s_total_jobs = 1\<rparr> \<and>
   parse_invoice_file ex_env ex_invoice_sheet_no_class = ParseFailed (quoted ''Class'')"
  by code_simp


lemma map_column_columns [simp]: "if_columns (map_column col f df) = if_columns df"
  by (simp add: map_column_def)

lemma clean_dataframe_columns: "if_columns (clean_dataframe env df) = map strip (if_columns df)"
  by (simp add: clean_dataframe_def Let_def)

lemma process_invoice_groups_succeeds:
  "''Amount'' \<in> set cols \<Longrightarrow> ''Balance'' \<in> set cols \<Longrightarrow>
   \<exists>d. process_invoice_groups env cols rows codes = Inr d"
  by (induction codes) (auto simp: process_invoice_group_def column_sum_def Let_def split: sum.splits)

lemma parse_needs_three_columns_only:
  assumes "''Class'' \<in> set (map strip (if_columns df))"
      and "''Amount'' \<in> set (map strip (if_columns df))"
      and "''Balance'' \<in> set (map strip (if_columns df))"
  shows "\<exists>d s. parse_invoice_file env df = Parsed d s"
proof -
  let ?df = "clean_dataframe env df"
  from assms have c: "''Class'' \<in> set (if_columns ?df)" "''Amount'' \<in> set (if_columns ?df)"
    "''Balance'' \<in> set (if_columns ?df)"
    by (simp_all only: clean_dataframe_columns)
  from process_invoice_groups_succeeds[OF c(2,3)] c(1)
  obtain d where "process_invoice_data env ?df = Inr d"
    unfolding process_invoice_data_def by (simp only: if_True) blast
  then show ?thesis by (simp add: parse_invoice_file_def)
qed

end
